theory Spec2Isabelle
  imports Main "HOL-Library.Sublist" "HOL-Library.AList"
begin

section \<open>Python values, exceptions and the outside world\<close>

text \<open>
  The two scripts of the repository (\<^verbatim>\<open>nl2sql_converter.py\<close> and \<^verbatim>\<open>router.py\<close>) and
  the helper module \<^verbatim>\<open>utils/helper.py\<close> are glue code around four external
  collaborators: SQLite, the chat-completion endpoint, Python's \<^verbatim>\<open>json\<close> module
  and the semantic router. The embedding keeps the glue as it is written and takes
  the collaborators as parameters (oracles), so that every theorem about the glue
  holds for whatever the collaborators answer.
\<close>

text \<open>
  A Python float, kept only as far as truth testing needs it: a finite value
  \<open>m * 2 ^ e\<close>, an infinity with its sign, or a NaN.
\<close>

datatype pyfloat = FloatFinite int int | FloatInf bool | FloatNaN

text \<open>
  The Python values that occur in the scripts: what \<^verbatim>\<open>json.loads\<close> can return
  (\<^verbatim>\<open>None\<close>, \<^verbatim>\<open>bool\<close>, \<^verbatim>\<open>int\<close>, \<^verbatim>\<open>float\<close>, \<^verbatim>\<open>str\<close>, \<^verbatim>\<open>list\<close>, \<^verbatim>\<open>dict\<close> with string
  keys) and what an SQLite row holds (a \<^verbatim>\<open>tuple\<close> of \<^verbatim>\<open>None\<close>, \<^verbatim>\<open>int\<close>, \<^verbatim>\<open>float\<close>, \<^verbatim>\<open>str\<close>,
  \<^verbatim>\<open>bytes\<close>). A dict is an association list in insertion order.
\<close>

datatype pyval =
    PyNone
  | PyBool bool
  | PyInt int
  | PyFloat pyfloat
  | PyStr string
  | PyBytes string
  | PyList "pyval list"
  | PyTuple "pyval list"
  | PyDict "(string \<times> pyval) list"

text \<open>
  The exceptions the scripts can meet. \<open>SqliteError\<close> stands for \<^verbatim>\<open>sqlite3.Error\<close> and
  its subclasses, \<open>OtherError\<close> for any other subclass of \<^verbatim>\<open>Exception\<close> raised by a
  collaborator (a network failure, an authentication failure).
\<close>

datatype exc =
    JSONDecodeError
  | KeyError
  | TypeError
  | IndexError
  | ValueError
  | NameError
  | FileNotFoundError
  | RecursionError
  | SqliteError
  | OtherError

text \<open>What a script prints, one item per \<^verbatim>\<open>print\<close> call.\<close>

datatype printout =
    OutValue pyval
  | OutText string
  | OutDecodeError exc
  | OutSqliteError exc
  | OutUnexpected exc

text \<open>
  The observable state a database operation changes: how often \<^verbatim>\<open>sqlite3.connect\<close> was
  called, how many connections are open (opened and not closed by \<^verbatim>\<open>conn.close()\<close>),
  the arguments handed to \<^verbatim>\<open>cursor.execute\<close> (oldest first) and what was printed.
\<close>

record world =
  connects :: nat
  open_conns :: nat
  executed :: "pyval list"
  printed :: "printout list"

text \<open>
  The database as the scripts see it: whether a connection to a path opens
  (\<open>None\<close>) or raises, and what executing a statement and fetching all its rows
  gives. The scripts only read the database before their last statement, so one
  answer per statement text is enough.
\<close>

record db =
  db_connect :: "string \<Rightarrow> exc option"
  db_answer :: "string \<Rightarrow> exc + pyval list"

subsection \<open>Python primitives\<close>

text \<open>Truth value testing, as in \<^verbatim>\<open>if sql_query:\<close>.\<close>

fun truthy :: "pyval \<Rightarrow> bool" where
  "truthy PyNone = False"
| "truthy (PyBool b) = b"
| "truthy (PyInt i) = (i \<noteq> 0)"
| "truthy (PyFloat (FloatFinite m e)) = (m \<noteq> 0)"
| "truthy (PyFloat (FloatInf s)) = True"
| "truthy (PyFloat FloatNaN) = True"
| "truthy (PyStr s) = (s \<noteq> [])"
| "truthy (PyBytes s) = (s \<noteq> [])"
| "truthy (PyList xs) = (xs \<noteq> [])"
| "truthy (PyTuple xs) = (xs \<noteq> [])"
| "truthy (PyDict kvs) = (kvs \<noteq> [])"

text \<open>
  Subscription with a string key, \<^verbatim>\<open>d["key"]\<close>: a dict raises \<^verbatim>\<open>KeyError\<close> when the
  key is missing; every other value raises \<^verbatim>\<open>TypeError\<close> (a list, tuple, str or bytes
  wants an integer index, the rest are not subscriptable).
\<close>

fun py_getitem :: "pyval \<Rightarrow> string \<Rightarrow> exc + pyval" where
  "py_getitem (PyDict kvs) k = (case map_of kvs k of None \<Rightarrow> Inl KeyError | Some v \<Rightarrow> Inr v)"
| "py_getitem v k = Inl TypeError"

text \<open>
  Subscription with a non-negative integer literal, \<^verbatim>\<open>row[0]\<close>: a tuple or a list
  raises \<^verbatim>\<open>IndexError\<close> out of range; a str or bytes gives its element; a dict (string
  keys only) raises \<^verbatim>\<open>KeyError\<close>; the rest raise \<^verbatim>\<open>TypeError\<close>.
\<close>

fun py_index :: "pyval \<Rightarrow> nat \<Rightarrow> exc + pyval" where
  "py_index (PyTuple xs) i = (if i < length xs then Inr (xs ! i) else Inl IndexError)"
| "py_index (PyList xs) i = (if i < length xs then Inr (xs ! i) else Inl IndexError)"
| "py_index (PyStr s) i = (if i < length s then Inr (PyStr [s ! i]) else Inl IndexError)"
| "py_index (PyBytes s) i = (if i < length s then Inr (PyInt (of_char (s ! i))) else Inl IndexError)"
| "py_index (PyDict kvs) i = Inl KeyError"
| "py_index v i = Inl TypeError"

text \<open>
  Iteration, \<^verbatim>\<open>for x in v\<close>: a list or tuple gives its elements, a dict its keys, a str
  its characters, bytes its integers; the rest raise \<^verbatim>\<open>TypeError\<close>.
\<close>

fun py_iter :: "pyval \<Rightarrow> exc + pyval list" where
  "py_iter (PyList xs) = Inr xs"
| "py_iter (PyTuple xs) = Inr xs"
| "py_iter (PyDict kvs) = Inr (map (\<lambda>kv. PyStr (fst kv)) kvs)"
| "py_iter (PyStr s) = Inr (map (\<lambda>c. PyStr [c]) s)"
| "py_iter (PyBytes s) = Inr (map (\<lambda>c. PyInt (of_char c)) s)"
| "py_iter v = Inl TypeError"

definition print :: "printout \<Rightarrow> world \<Rightarrow> world" where
  "print x w = w\<lparr>printed := printed w @ [x]\<rparr>"

subsection \<open>The sqlite3 calls\<close>

text \<open>\<^verbatim>\<open>sqlite3.connect(path)\<close>: one more call; one more open connection unless it raises.\<close>

definition sqlite3_connect :: "db \<Rightarrow> string \<Rightarrow> world \<Rightarrow> exc option \<times> world" where
  "sqlite3_connect d path w =
     (case db_connect d path of
        Some e \<Rightarrow> (Some e, w\<lparr>connects := connects w + 1\<rparr>)
      | None \<Rightarrow> (None, w\<lparr>connects := connects w + 1, open_conns := open_conns w + 1\<rparr>))"

text \<open>
  What \<^verbatim>\<open>cursor.execute(stmt)\<close> followed by \<^verbatim>\<open>cursor.fetchall()\<close> yields: the
  database's answer for a str, \<^verbatim>\<open>TypeError\<close> for anything else (the binding accepts
  only a str).
\<close>

definition statement_result :: "db \<Rightarrow> pyval \<Rightarrow> exc + pyval list" where
  "statement_result d stmt = (case stmt of PyStr s \<Rightarrow> db_answer d s | _ \<Rightarrow> Inl TypeError)"

definition execute_fetchall :: "db \<Rightarrow> pyval \<Rightarrow> world \<Rightarrow> (exc + pyval list) \<times> world" where
  "execute_fetchall d stmt w = (statement_result d stmt, w\<lparr>executed := executed w @ [stmt]\<rparr>)"

text \<open>\<^verbatim>\<open>conn.close()\<close>.\<close>

definition conn_close :: "world \<Rightarrow> world" where
  "conn_close w = w\<lparr>open_conns := open_conns w - 1\<rparr>"

section \<open>utils/helper.py\<close>

text \<open>
  The two handlers at the end of both helper functions: \<^verbatim>\<open>except sqlite3.Error\<close>
  first, \<^verbatim>\<open>except Exception\<close> second. Both print and let the function return its
  fallback value.
\<close>

definition helper_except :: "exc \<Rightarrow> world \<Rightarrow> world" where
  "helper_except e w = (if e = SqliteError then print (OutSqliteError e) w else print (OutUnexpected e) w)"

text \<open>The statement \<^verbatim>\<open>f"PRAGMA table_info('{table_name}')"\<close>.\<close>

definition pragma_stmt :: "string \<Rightarrow> string" where
  "pragma_stmt table_name = ''PRAGMA table_info('' @ [CHR 0x27] @ table_name @ [CHR 0x27] @ '')''"

text \<open>
  The loop over \<^verbatim>\<open>schema_info\<close>: one dict per row, appended in order;
  \<^verbatim>\<open>row[0]\<close>, \<^verbatim>\<open>row[1]\<close>, \<^verbatim>\<open>row[2]\<close> raise on a row that is too short.
\<close>

fun column_details_loop :: "pyval list \<Rightarrow> pyval list \<Rightarrow> exc + pyval list" where
  "column_details_loop column_details [] = Inr column_details"
| "column_details_loop column_details (row # rows) =
     (case py_index row 0 of Inl e \<Rightarrow> Inl e | Inr c0 \<Rightarrow>
      (case py_index row 1 of Inl e \<Rightarrow> Inl e | Inr c1 \<Rightarrow>
       (case py_index row 2 of Inl e \<Rightarrow> Inl e | Inr c2 \<Rightarrow>
          column_details_loop
            (column_details @ [PyDict [(''column_id'', c0), (''name'', c1), (''type'', c2)]])
            rows)))"

text \<open>
  \<^verbatim>\<open>get_column_info(db_file, table_name)\<close>: the returned value (\<^verbatim>\<open>None\<close> on any
  exception) and the world after the call. \<^verbatim>\<open>conn.close()\<close> stands after
  \<^verbatim>\<open>fetchall\<close> inside the \<^verbatim>\<open>try\<close>, so an exception before it skips it.
\<close>

definition get_column_info :: "db \<Rightarrow> string \<Rightarrow> string \<Rightarrow> world \<Rightarrow> pyval \<times> world" where
  "get_column_info d db_file table_name w =
     (case sqlite3_connect d db_file w of
        (Some e, w1) \<Rightarrow> (PyNone, helper_except e w1)
      | (None, w1) \<Rightarrow>
          (case execute_fetchall d (PyStr (pragma_stmt table_name)) w1 of
             (Inl e, w2) \<Rightarrow> (PyNone, helper_except e w2)
           | (Inr schema_info, w2) \<Rightarrow>
               (let w3 = conn_close w2 in
                case column_details_loop [] schema_info of
                  Inl e \<Rightarrow> (PyNone, helper_except e w3)
                | Inr column_details \<Rightarrow> (PyList column_details, w3))))"

text \<open>The statement \<^verbatim>\<open>f"SELECT * FROM {table_name} LIMIT 3"\<close>.\<close>

definition sample_stmt :: "string \<Rightarrow> string" where
  "sample_stmt table_name = ''SELECT * FROM '' @ table_name @ '' LIMIT 3''"

text \<open>\<^verbatim>\<open>get_table_sample(db_file, table_name)\<close>: the rows, or \<^verbatim>\<open>[]\<close> on any exception.\<close>

definition get_table_sample :: "db \<Rightarrow> string \<Rightarrow> string \<Rightarrow> world \<Rightarrow> pyval \<times> world" where
  "get_table_sample d db_file table_name w =
     (case sqlite3_connect d db_file w of
        (Some e, w1) \<Rightarrow> (PyList [], helper_except e w1)
      | (None, w1) \<Rightarrow>
          (case execute_fetchall d (PyStr (sample_stmt table_name)) w1 of
             (Inl e, w2) \<Rightarrow> (PyList [], helper_except e w2)
           | (Inr first_three, w2) \<Rightarrow> (PyList first_three, conn_close w2)))"

section \<open>utils/prompt.py\<close>

text \<open>The template, line by line as in the source (each line with its newline).\<close>

definition NL2SQL_PROMPT :: string where
  \<open>NL2SQL_PROMPT = concat [
      ''\<newline>'',
      ''You are a software engineer specialized in converting natural language query to SQL query. Follow closely the provided instructions. \<newline>'',
      ''\<newline>'',
      ''# Instructions\<newline>'',
      ''- Always look up closely to the 'database info' section before converting the natural language query into a SQL query\<newline>'',
      ''- Always follow the provided output format\<newline>'',
      ''- ONLY include the SQL query to the user in your response\<newline>'',
      ''\<newline>'',
      ''# Database info\<newline>'',
      ''<column_info table_name="{table_name}">\<newline>'',
      ''Info about the columns of the table:\<newline>'',
      ''{column_info}\<newline>'',
      ''</column_info>\<newline>'',
      ''\<newline>'',
      ''<table_sample table_name="{table_name}">\<newline>'',
      ''The first three rows of the table:\<newline>'',
      ''{table_sample}\<newline>'',
      ''</table_sample>\<newline>'',
      ''\<newline>'',
      ''# Output format\<newline>'',
      ''Always provide the response according to the following output format:\<newline>'',
      ''{{"sql_query": <sql_query>}}\<newline>'',
      ''\<newline>'',
      ''# Natural language query\<newline>'',
      ''{nl_query}\<newline>'']\<close>

text \<open>
  \<^verbatim>\<open>str.format\<close> with keyword arguments, for templates whose replacement fields are
  plain names (no conversion, no format specification, no attribute or index), as
  all fields of \<open>NL2SQL_PROMPT\<close> are. The text is scanned from the left: a doubled
  brace stands for one brace, a single closing brace or an unclosed field raises
  \<^verbatim>\<open>ValueError\<close>, a field whose name is not among the keywords raises \<^verbatim>\<open>KeyError\<close>.
  The substituted text is never scanned again.
\<close>

fun format_text :: "(string \<Rightarrow> string option) \<Rightarrow> string \<Rightarrow> exc + string"
  and format_field :: "(string \<Rightarrow> string option) \<Rightarrow> string \<Rightarrow> string \<Rightarrow> exc + string" where
  "format_text kw [] = Inr []"
| "format_text kw (c # cs) =
     (if c = CHR ''{'' then
        (case cs of
           [] \<Rightarrow> Inl ValueError
         | c' # cs' \<Rightarrow>
             if c' = CHR ''{''
             then (case format_text kw cs' of Inl e \<Rightarrow> Inl e | Inr out \<Rightarrow> Inr (CHR ''{'' # out))
             else format_field kw [] cs)
      else if c = CHR ''}'' then
        (case cs of
           [] \<Rightarrow> Inl ValueError
         | c' # cs' \<Rightarrow>
             if c' = CHR ''}''
             then (case format_text kw cs' of Inl e \<Rightarrow> Inl e | Inr out \<Rightarrow> Inr (CHR ''}'' # out))
             else Inl ValueError)
      else (case format_text kw cs of Inl e \<Rightarrow> Inl e | Inr out \<Rightarrow> Inr (c # out)))"
| "format_field kw name [] = Inl ValueError"
| "format_field kw name (c # cs) =
     (if c = CHR ''}'' then
        (case kw name of
           None \<Rightarrow> Inl KeyError
         | Some v \<Rightarrow> (case format_text kw cs of Inl e \<Rightarrow> Inl e | Inr out \<Rightarrow> Inr (v @ out)))
      else format_field kw (name @ [c]) cs)"

text \<open>
  What a replacement field shows of a value (\<^verbatim>\<open>format(v, "")\<close>): a str as it is,
  anything else through Python's \<^verbatim>\<open>str\<close>, which is a parameter.
\<close>

definition format_value :: "(pyval \<Rightarrow> string) \<Rightarrow> pyval \<Rightarrow> string" where
  "format_value py_str v = (case v of PyStr s \<Rightarrow> s | _ \<Rightarrow> py_str v)"

definition str_format :: "(pyval \<Rightarrow> string) \<Rightarrow> string \<Rightarrow> (string \<times> pyval) list \<Rightarrow> exc + string" where
  "str_format py_str template kwargs =
     format_text (\<lambda>name. map_option (format_value py_str) (map_of kwargs name)) template"

text \<open>
  The Prompt Builder, lines 37 to 42 of \<^verbatim>\<open>nl2sql_converter.py\<close>: it takes no world
  and returns none.
\<close>

definition NL2SQL_PROMPT_format ::
  "(pyval \<Rightarrow> string) \<Rightarrow> string \<Rightarrow> pyval \<Rightarrow> pyval \<Rightarrow> string \<Rightarrow> exc + string" where
  "NL2SQL_PROMPT_format py_str table_name table_sample column_info nl_query =
     str_format py_str NL2SQL_PROMPT
       [(''table_name'', PyStr table_name),
        (''table_sample'', table_sample),
        (''column_info'', column_info),
        (''nl_query'', PyStr nl_query)]"

text \<open>
  The prompt as rendered, line by line: the template with its four fields filled in
  and the doubled braces of the output format halved.
\<close>

definition rendered_lines ::
  "(pyval \<Rightarrow> string) \<Rightarrow> string \<Rightarrow> pyval \<Rightarrow> pyval \<Rightarrow> string \<Rightarrow> string list" where
  \<open>rendered_lines py_str table_name table_sample column_info nl_query =
     [''\<newline>'',
      ''You are a software engineer specialized in converting natural language query to SQL query. Follow closely the provided instructions. \<newline>'',
      ''\<newline>'',
      ''# Instructions\<newline>'',
      ''- Always look up closely to the 'database info' section before converting the natural language query into a SQL query\<newline>'',
      ''- Always follow the provided output format\<newline>'',
      ''- ONLY include the SQL query to the user in your response\<newline>'',
      ''\<newline>'',
      ''# Database info\<newline>'',
      ''<column_info table_name="'' @ table_name @ ''">\<newline>'',
      ''Info about the columns of the table:\<newline>'',
      format_value py_str column_info @ ''\<newline>'',
      ''</column_info>\<newline>'',
      ''\<newline>'',
      ''<table_sample table_name="'' @ table_name @ ''">\<newline>'',
      ''The first three rows of the table:\<newline>'',
      format_value py_str table_sample @ ''\<newline>'',
      ''</table_sample>\<newline>'',
      ''\<newline>'',
      ''# Output format\<newline>'',
      ''Always provide the response according to the following output format:\<newline>'',
      ''{"sql_query": <sql_query>}\<newline>'',
      ''\<newline>'',
      ''# Natural language query\<newline>'',
      nl_query @ ''\<newline>'']\<close>

section \<open>nl2sql_converter.py\<close>

definition TOPIC_TO_TEST :: string where
  "TOPIC_TO_TEST = ''countries''"

definition cars_queries :: "string list" where
  "cars_queries =
     [''What are the engine specifications for Vortex X1?'',
      ''Who between Vortex X1 and Avalon S has the highest fuel consumption?'']"

definition countries_queries :: "string list" where
  \<open>countries_queries =
     [''What's the most common animal in Italy?'',
      ''How many habitants does Egypt have?'']\<close>

definition db_path :: string where
  "db_path = ''data/data.db''"

text \<open>
  Lines 22 to 34: the names \<^verbatim>\<open>table_name\<close>, \<^verbatim>\<open>column_info\<close>, \<^verbatim>\<open>table_sample\<close> and
  \<^verbatim>\<open>nl_query\<close> are bound in one of the two branches, and in neither for any other
  topic.
\<close>

definition database_info :: "db \<Rightarrow> world \<Rightarrow> (string \<times> pyval \<times> pyval \<times> string) option \<times> world" where
  "database_info d w =
     (if TOPIC_TO_TEST = ''cars'' then
        (case get_column_info d db_path ''cars_data'' w of (column_info, w1) \<Rightarrow>
         (case get_table_sample d db_path ''cars_data'' w1 of (table_sample, w2) \<Rightarrow>
            (Some (''cars_data'', column_info, table_sample, cars_queries ! 1), w2)))
      else if TOPIC_TO_TEST = ''countries'' then
        (case get_column_info d db_path ''countries_data'' w of (column_info, w1) \<Rightarrow>
         (case get_table_sample d db_path ''countries_data'' w1 of (table_sample, w2) \<Rightarrow>
            (Some (''countries_data'', column_info, table_sample, countries_queries ! 1), w2)))
      else (None, w))"

text \<open>
  Lines 63 to 73. Both the decoding and the subscription stand inside the \<^verbatim>\<open>try\<close>;
  the only handler is \<^verbatim>\<open>except json.JSONDecodeError\<close>, which prints and binds
  \<^verbatim>\<open>sql_query = None\<close>. Any other exception leaves the \<^verbatim>\<open>try\<close> statement uncaught.
  \<open>loads\<close> is \<^verbatim>\<open>json.loads\<close> on a str; the reply of the model is a str or \<^verbatim>\<open>None\<close>,
  and \<^verbatim>\<open>json.loads(None)\<close> raises \<^verbatim>\<open>TypeError\<close>.
\<close>

definition extract_info ::
  "(string \<Rightarrow> exc + pyval) \<Rightarrow> string option \<Rightarrow> world \<Rightarrow> (exc + pyval) \<times> world" where
  "extract_info loads response w =
     (case (case (case response of None \<Rightarrow> Inl TypeError | Some s \<Rightarrow> loads s) of
              Inl e \<Rightarrow> Inl e
            | Inr response_dictionary \<Rightarrow> py_getitem response_dictionary ''sql_query'') of
        Inl e \<Rightarrow>
          if e = JSONDecodeError then (Inr PyNone, print (OutDecodeError e) w) else (Inl e, w)
      | Inr sql_query \<Rightarrow> (Inr sql_query, w))"

text \<open>
  Lines 75 to 87, the Query Executor. The body runs only when \<^verbatim>\<open>sql_query\<close> is
  truthy. The handler is \<^verbatim>\<open>except sqlite3.Error\<close>; \<^verbatim>\<open>conn.close()\<close> is the last
  statement of the \<^verbatim>\<open>try\<close> body.
\<close>

definition run_except :: "exc \<Rightarrow> world \<Rightarrow> exc option \<times> world" where
  "run_except e w = (if e = SqliteError then (None, print (OutSqliteError e) w) else (Some e, w))"

definition print_rows :: "pyval list \<Rightarrow> world \<Rightarrow> world" where
  "print_rows result w = foldl (\<lambda>w' row. print (OutValue row) w') w result"

definition run_sql_query :: "db \<Rightarrow> pyval \<Rightarrow> world \<Rightarrow> exc option \<times> world" where
  "run_sql_query d sql_query w =
     (if truthy sql_query then
        (case sqlite3_connect d db_path w of
           (Some e, w1) \<Rightarrow> run_except e w1
         | (None, w1) \<Rightarrow>
             (case execute_fetchall d sql_query w1 of
                (Inl e, w2) \<Rightarrow> run_except e w2
              | (Inr result, w2) \<Rightarrow>
                  (None, conn_close (print_rows result (print (OutText ''SQL Query Result:'') w2)))))
      else (None, w))"

text \<open>
  How a run of the script ends: the exception that ended it, if any; the value bound
  to the variable \<^verbatim>\<open>sql_query\<close>, if it was bound; and the world.
\<close>

record outcome =
  uncaught :: "exc option"
  sql_query_var :: "pyval option"
  final :: world

text \<open>Lines 60 to 87: from the reply of the model to the end of the script.\<close>

definition parse_and_run ::
  "(string \<Rightarrow> exc + pyval) \<Rightarrow> db \<Rightarrow> string option \<Rightarrow> world \<Rightarrow> outcome" where
  "parse_and_run loads d response w =
     (case extract_info loads response
             (print (OutValue (case response of None \<Rightarrow> PyNone | Some s \<Rightarrow> PyStr s)) w) of
        (Inl e, w1) \<Rightarrow> \<lparr>uncaught = Some e, sql_query_var = None, final = w1\<rparr>
      | (Inr sql_query, w1) \<Rightarrow>
          (case run_sql_query d sql_query w1 of
             (r, w2) \<Rightarrow> \<lparr>uncaught = r, sql_query_var = Some sql_query, final = w2\<rparr>))"

text \<open>
  The whole script. \<open>chat\<close> is the construction of the client and the
  chat-completion call up to \<^verbatim>\<open>completion.choices[0].message.content\<close>: the reply,
  or the exception it raises, which nothing catches.
\<close>

definition nl2sql_converter ::
  "(pyval \<Rightarrow> string) \<Rightarrow> (string \<Rightarrow> exc + string option) \<Rightarrow> (string \<Rightarrow> exc + pyval) \<Rightarrow>
     db \<Rightarrow> world \<Rightarrow> outcome" where
  "nl2sql_converter py_str chat loads d w =
     (case database_info d w of
        (None, w1) \<Rightarrow> \<lparr>uncaught = Some NameError, sql_query_var = None, final = w1\<rparr>
      | (Some (table_name, column_info, table_sample, nl_query), w1) \<Rightarrow>
          (case NL2SQL_PROMPT_format py_str table_name table_sample column_info nl_query of
             Inl e \<Rightarrow> \<lparr>uncaught = Some e, sql_query_var = None, final = w1\<rparr>
           | Inr prompt \<Rightarrow>
               (case chat prompt of
                  Inl e \<Rightarrow> \<lparr>uncaught = Some e, sql_query_var = None, final = w1\<rparr>
                | Inr response \<Rightarrow> parse_and_run loads d response w1)))"

section \<open>router.py\<close>

text \<open>
  The configured router \<^verbatim>\<open>rl\<close> as the script uses it: \<^verbatim>\<open>rl(text).name\<close> is the name of
  the chosen route, \<^verbatim>\<open>None\<close> when no route matches, or the call raises (the embedding
  service is remote).
\<close>

type_synonym router = "pyval \<Rightarrow> exc + string option"

text \<open>
  Lines 26 to 38, the loop that builds the report. The router is called first, on
  \<^verbatim>\<open>query["query"]\<close>; then the dict is built from \<^verbatim>\<open>query["query"]\<close>,
  \<^verbatim>\<open>query["category"]\<close> and the route, and appended. Nothing catches an exception.
\<close>

fun report_loop :: "router \<Rightarrow> pyval list \<Rightarrow> pyval list \<Rightarrow> exc + pyval list" where
  "report_loop rl report [] = Inr report"
| "report_loop rl report (query # queries) =
     (case py_getitem query ''query'' of Inl e \<Rightarrow> Inl e | Inr text \<Rightarrow>
      (case rl text of Inl e \<Rightarrow> Inl e | Inr route \<Rightarrow>
       (case py_getitem query ''query'' of Inl e \<Rightarrow> Inl e | Inr q \<Rightarrow>
        (case py_getitem query ''category'' of Inl e \<Rightarrow> Inl e | Inr c \<Rightarrow>
           report_loop rl
             (report @
                [PyDict [(''query'', q), (''category'', c),
                         (''route'', case route of None \<Rightarrow> PyNone | Some name \<Rightarrow> PyStr name)]])
             queries))))"

text \<open>
  The files the script touches, as a map from paths to contents. Lines 22 and 23
  read a JSON file: \<^verbatim>\<open>open(path, "r")\<close> raises when the file is missing, and
  \<^verbatim>\<open>json.load(file)\<close> decodes its content (\<open>loads\<close>).
\<close>

definition load_json ::
  "(string \<Rightarrow> exc + pyval) \<Rightarrow> string \<Rightarrow> (string \<rightharpoonup> string) \<Rightarrow> exc + pyval" where
  "load_json loads path fs =
     (case fs path of
        None \<Rightarrow> Inl FileNotFoundError
      | Some content \<Rightarrow> loads content)"

text \<open>
  Lines 40 to 42 write the report: \<^verbatim>\<open>open("report.json", "w")\<close> creates or empties the
  file, then \<^verbatim>\<open>json.dumps(report, indent=4)\<close> (\<open>dumps\<close>) is evaluated and its text
  written. If the encoder raises, the file is left empty.
\<close>

definition save_report ::
  "(pyval \<Rightarrow> exc + string) \<Rightarrow> pyval list \<Rightarrow> (string \<rightharpoonup> string) \<Rightarrow>
     exc option \<times> (string \<rightharpoonup> string)" where
  "save_report dumps report fs =
     (case dumps (PyList report) of
        Inl e \<Rightarrow> (Some e, fs(''report.json'' \<mapsto> []))
      | Inr content \<Rightarrow> (None, fs(''report.json'' \<mapsto> content)))"

text \<open>
  The whole script. \<open>make_router\<close> is lines 9 to 19, the construction of the encoder
  and the router from the utterances and the API key: the router, or the exception
  that ends the script. The result is the uncaught exception, if any, and the files
  after the run.
\<close>

definition router_script ::
  "exc + router \<Rightarrow> (string \<Rightarrow> exc + pyval) \<Rightarrow> (pyval \<Rightarrow> exc + string) \<Rightarrow>
     (string \<rightharpoonup> string) \<Rightarrow> exc option \<times> (string \<rightharpoonup> string)" where
  "router_script make_router loads dumps fs =
     (case make_router of
        Inl e \<Rightarrow> (Some e, fs)
      | Inr rl \<Rightarrow>
          (case load_json loads ''queries.json'' fs of
             Inl e \<Rightarrow> (Some e, fs)
           | Inr queries \<Rightarrow>
               (case py_iter queries of
                  Inl e \<Rightarrow> (Some e, fs)
                | Inr records \<Rightarrow>
                    (case report_loop rl [] records of
                       Inl e \<Rightarrow> (Some e, fs)
                     | Inr report \<Rightarrow> save_report dumps report fs))))"

text \<open>
  A RouteAssignment of the data model, as the dict the loop appends: a query, its
  category, and the route or \<^verbatim>\<open>None\<close>.
\<close>

definition RouteAssignment :: "string \<Rightarrow> string \<Rightarrow> string option \<Rightarrow> pyval" where
  "RouteAssignment query category route =
     PyDict [(''query'', PyStr query), (''category'', PyStr category),
             (''route'', case route of None \<Rightarrow> PyNone | Some name \<Rightarrow> PyStr name)]"

section \<open>The collaborators the claims speak about\<close>

subsection \<open>SQLite's table_info\<close>

text \<open>
  What SQLite answers to \<^verbatim>\<open>PRAGMA table_info\<close> for a table, by its documentation: one
  row per normal column, in the order of the table's declaration, each row \<^verbatim>\<open>(cid,
  name, type, notnull, dflt_value, pk)\<close> with \<^verbatim>\<open>cid\<close> the rank of the column, from 0. A
  column is given here by the five values after \<^verbatim>\<open>cid\<close>. Generated and hidden
  columns, which this pragma does not list, are not part of a table here.
\<close>

record column =
  col_name :: string
  col_type :: string
  col_notnull :: bool
  col_dflt :: "string option"
  col_pk :: nat

definition table_info_row :: "nat \<Rightarrow> column \<Rightarrow> pyval" where
  "table_info_row cid c =
     PyTuple [PyInt (int cid), PyStr (col_name c), PyStr (col_type c),
              PyInt (if col_notnull c then 1 else 0),
              (case col_dflt c of None \<Rightarrow> PyNone | Some s \<Rightarrow> PyStr s),
              PyInt (int (col_pk c))]"

definition table_info :: "column list \<Rightarrow> pyval list" where
  "table_info cols = map (\<lambda>(cid, c). table_info_row cid c) (enumerate 0 cols)"

subsection \<open>The Utterance Router\<close>

text \<open>
  Modelled from the spec: the Utterance Router. The router is the class
  \<^verbatim>\<open>SemanticRouter\<close> of the package \<^verbatim>\<open>semantic_router\<close> with an \<^verbatim>\<open>OpenAIEncoder\<close>;
  \<^verbatim>\<open>router.py\<close> only constructs and calls it, and its code is not part of the
  sources. The spec (section 4.5) gives it as: a set of routes, each a name and a
  list of utterances; an embedding function; a similarity threshold. Given a query
  the router (1) embeds the query, (2) computes the similarity against the
  aggregated representation of each route's utterances, (3) selects the route with
  the highest similarity, (4) returns that route's name only if the similarity is at
  least the threshold, otherwise no match. The embedding and the similarity are
  parameters; among equally similar routes the first declared wins.
\<close>

fun nearest :: "(string \<times> 's::linorder) list \<Rightarrow> (string \<times> 's) option" where
  "nearest [] = None"
| "nearest ((name, s) # rest) =
     (case nearest rest of
        None \<Rightarrow> Some (name, s)
      | Some (name', s') \<Rightarrow> if s < s' then Some (name', s') else Some (name, s))"

definition utterance_router ::
  "('q \<Rightarrow> 'v) \<Rightarrow> ('v \<Rightarrow> string list \<Rightarrow> 's::linorder) \<Rightarrow> (string \<times> string list) list \<Rightarrow>
     's \<Rightarrow> 'q \<Rightarrow> string option" where
  "utterance_router embedding similarity routes threshold query =
     (let v = embedding query;
          scores = map (\<lambda>(name, utterances). (name, similarity v utterances)) routes
      in case nearest scores of
           None \<Rightarrow> None
         | Some (name, s) \<Rightarrow> if threshold \<le> s then Some name else None)"

subsection \<open>Python's json module\<close>

text \<open>
  \<^verbatim>\<open>router.py\<close> writes its report with \<^verbatim>\<open>json.dumps(report, indent=4)\<close> and reads
  JSON files with \<^verbatim>\<open>json.load\<close>. Both belong to Python's standard library; they are
  given here as the library defines them (\<^verbatim>\<open>json/encoder.py\<close>, \<^verbatim>\<open>json/decoder.py\<close>,
  \<^verbatim>\<open>json/scanner.py\<close>), with the default options. A \<open>string\<close> is a list of 8-bit
  characters, read as the code points 0 to 255. The text of a float and its value
  (\<^verbatim>\<open>float.__repr__\<close>, \<^verbatim>\<open>float\<close>) are parameters.
\<close>

paragraph \<open>The encoder\<close>

definition hex_digit :: "nat \<Rightarrow> char" where
  "hex_digit n = ''0123456789abcdef'' ! n"

text \<open>
  One character of a string, as \<^verbatim>\<open>ensure_ascii\<close> writes it: the quote and the
  backslash escaped, the five short escapes, every other character outside the
  printable ASCII range (space to tilde) as \<^verbatim>\<open>\u00XX\<close>, and the rest as it is.
\<close>

definition escape_char :: "char \<Rightarrow> string" where
  "escape_char c =
     (if c = CHR 0x22 then [CHR 0x5C, CHR 0x22]
      else if c = CHR 0x5C then [CHR 0x5C, CHR 0x5C]
      else if c = CHR 0x0A then [CHR 0x5C, CHR ''n'']
      else if c = CHR 0x0D then [CHR 0x5C, CHR ''r'']
      else if c = CHR 0x09 then [CHR 0x5C, CHR ''t'']
      else if c = CHR 0x08 then [CHR 0x5C, CHR ''b'']
      else if c = CHR 0x0C then [CHR 0x5C, CHR ''f'']
      else if (of_char c :: nat) < 0x20 \<or> 0x7E < (of_char c :: nat)
        then [CHR 0x5C, CHR ''u'', CHR ''0'', CHR ''0'',
              hex_digit (of_char c div 16), hex_digit (of_char c mod 16)]
      else [c])"

definition encode_basestring_ascii :: "string \<Rightarrow> string" where
  "encode_basestring_ascii s = CHR 0x22 # concat (map escape_char s) @ [CHR 0x22]"

text \<open>The decimal text of an int (\<^verbatim>\<open>int.__repr__\<close>).\<close>

function nat_repr :: "nat \<Rightarrow> string" where
  "nat_repr n =
     (if n < 10 then [''0123456789'' ! n]
      else nat_repr (n div 10) @ [''0123456789'' ! (n mod 10)])"
  by pat_completeness auto
termination
  by (relation "measure id") auto

definition int_repr :: "int \<Rightarrow> string" where
  "int_repr i = (if i < 0 then CHR ''-'' # nat_repr (nat (- i)) else nat_repr (nat i))"

definition floatstr :: "(int \<Rightarrow> int \<Rightarrow> string) \<Rightarrow> pyfloat \<Rightarrow> string" where
  "floatstr float_repr x =
     (case x of
        FloatNaN \<Rightarrow> ''NaN''
      | FloatInf negative \<Rightarrow> (if negative then ''-Infinity'' else ''Infinity'')
      | FloatFinite m e \<Rightarrow> float_repr m e)"

text \<open>With \<^verbatim>\<open>indent=4\<close>: a newline and four spaces per level of nesting.\<close>

definition newline_indent :: "nat \<Rightarrow> string" where
  "newline_indent level = CHR 0x0A # replicate (4 * level) CHR '' ''"

fun intersperse :: "string \<Rightarrow> string list \<Rightarrow> string" where
  "intersperse sep [] = []"
| "intersperse sep [x] = x"
| "intersperse sep (x # y # ys) = x @ sep @ intersperse sep (y # ys)"

text \<open>
  The text of a value at a level of nesting. An empty list or dict is written
  \<^verbatim>\<open>[]\<close> or \<^verbatim>\<open>{}\<close>; the items of any other are written one per line, indented one
  level deeper, separated by commas, a key and its value by a colon and a space. A
  tuple is written as a list. Bytes have no text (see \<open>serializable\<close>).
\<close>

fun iterencode :: "(int \<Rightarrow> int \<Rightarrow> string) \<Rightarrow> nat \<Rightarrow> pyval \<Rightarrow> string" where
  "iterencode fr level PyNone = ''null''"
| "iterencode fr level (PyBool b) = (if b then ''true'' else ''false'')"
| "iterencode fr level (PyInt i) = int_repr i"
| "iterencode fr level (PyFloat x) = floatstr fr x"
| "iterencode fr level (PyStr s) = encode_basestring_ascii s"
| "iterencode fr level (PyBytes s) = []"
| "iterencode fr level (PyList xs) =
     (if xs = [] then ''[]''
      else ''['' @ newline_indent (Suc level) @
           intersperse (CHR '','' # newline_indent (Suc level))
             (map (iterencode fr (Suc level)) xs) @
           newline_indent level @ '']'')"
| "iterencode fr level (PyTuple xs) =
     (if xs = [] then ''[]''
      else ''['' @ newline_indent (Suc level) @
           intersperse (CHR '','' # newline_indent (Suc level))
             (map (iterencode fr (Suc level)) xs) @
           newline_indent level @ '']'')"
| "iterencode fr level (PyDict kvs) =
     (if kvs = [] then ''{}''
      else ''{'' @ newline_indent (Suc level) @
           intersperse (CHR '','' # newline_indent (Suc level))
             (map (\<lambda>kv. encode_basestring_ascii (fst kv) @ '': '' @
                         iterencode fr (Suc level) (snd kv)) kvs) @
           newline_indent level @ ''}'')"



paragraph \<open>The decoder\<close>

definition is_ws :: "char \<Rightarrow> bool" where
  "is_ws c = (c = CHR '' '' \<or> c = CHR 0x09 \<or> c = CHR 0x0A \<or> c = CHR 0x0D)"

definition skip_ws :: "string \<Rightarrow> string" where
  "skip_ws s = dropWhile is_ws s"

definition is_digit :: "char \<Rightarrow> bool" where
  "is_digit c = ((48::nat) \<le> of_char c \<and> of_char c \<le> (57::nat))"

definition digit_value :: "char \<Rightarrow> nat" where
  "digit_value c = of_char c - 48"

definition hex_value :: "char \<Rightarrow> nat option" where
  "hex_value c =
     (let n = (of_char c :: nat) in
      if 48 \<le> n \<and> n \<le> 57 then Some (n - 48)
      else if 97 \<le> n \<and> n \<le> 102 then Some (n - 87)
      else if 65 \<le> n \<and> n \<le> 70 then Some (n - 55)
      else None)"

definition decode_uXXXX :: "char \<Rightarrow> char \<Rightarrow> char \<Rightarrow> char \<Rightarrow> nat option" where
  "decode_uXXXX h1 h2 h3 h4 =
     (case (hex_value h1, hex_value h2, hex_value h3, hex_value h4) of
        (Some a, Some b, Some c, Some d) \<Rightarrow> Some (((a * 16 + b) * 16 + c) * 16 + d)
      | _ \<Rightarrow> None)"

text \<open>The characters that may follow a backslash, other than \<^verbatim>\<open>u\<close>.\<close>

definition backslash :: "char \<Rightarrow> char option" where
  "backslash esc =
     (if esc = CHR 0x22 then Some (CHR 0x22)
      else if esc = CHR 0x5C then Some (CHR 0x5C)
      else if esc = CHR ''/'' then Some (CHR ''/'')
      else if esc = CHR ''b'' then Some (CHR 0x08)
      else if esc = CHR ''f'' then Some (CHR 0x0C)
      else if esc = CHR ''n'' then Some (CHR 0x0A)
      else if esc = CHR ''r'' then Some (CHR 0x0D)
      else if esc = CHR ''t'' then Some (CHR 0x09)
      else None)"

text \<open>
  A string, from behind its opening quote to its closing quote: the string and the
  text that follows it. A control character, a bad escape or a missing closing
  quote is a \<^verbatim>\<open>JSONDecodeError\<close>. An escape \<^verbatim>\<open>\uXXXX\<close> above \<^verbatim>\<open>\u00ff\<close> denotes a
  character that a \<open>string\<close> here cannot hold: Python decodes it, this definition
  answers \<open>OtherError\<close>.
\<close>

fun scanstring :: "string \<Rightarrow> exc + string \<times> string" where
  "scanstring [] = Inl JSONDecodeError"
| "scanstring (c # cs) =
     (if c = CHR 0x22 then Inr ([], cs)
      else if c = CHR 0x5C then
        (case cs of
           [] \<Rightarrow> Inl JSONDecodeError
         | esc # cs1 \<Rightarrow>
             if esc = CHR ''u'' then
               (case cs1 of
                  h1 # h2 # h3 # h4 # cs2 \<Rightarrow>
                    (case decode_uXXXX h1 h2 h3 h4 of
                       None \<Rightarrow> Inl JSONDecodeError
                     | Some n \<Rightarrow>
                         if n < 256 then
                           (case scanstring cs2 of
                              Inl e \<Rightarrow> Inl e
                            | Inr (s, rest) \<Rightarrow> Inr (char_of n # s, rest))
                         else Inl OtherError)
                | _ \<Rightarrow> Inl JSONDecodeError)
             else
               (case backslash esc of
                  None \<Rightarrow> Inl JSONDecodeError
                | Some ch \<Rightarrow>
                    (case scanstring cs1 of
                       Inl e \<Rightarrow> Inl e
                     | Inr (s, rest) \<Rightarrow> Inr (ch # s, rest))))
      else if (of_char c :: nat) < 0x20 then Inl JSONDecodeError
      else (case scanstring cs of
              Inl e \<Rightarrow> Inl e
            | Inr (s, rest) \<Rightarrow> Inr (c # s, rest)))"

text \<open>
  A number, by the pattern \<^verbatim>\<open>(-?(?:0|[1-9][0-9]*))(\.[0-9]+)?([eE][-+]?[0-9]+)?\<close>:
  an int when it has neither fraction nor exponent, a float otherwise.
\<close>

definition nat_of_digits :: "string \<Rightarrow> nat" where
  "nat_of_digits ds = foldl (\<lambda>n c. 10 * n + digit_value c) 0 ds"

definition match_integer :: "string \<Rightarrow> (string \<times> string) option" where
  "match_integer s =
     (case s of
        [] \<Rightarrow> None
      | c # cs \<Rightarrow>
          if c = CHR ''0'' then Some ([c], cs)
          else if is_digit c then Some (takeWhile is_digit s, dropWhile is_digit s)
          else None)"

definition match_frac :: "string \<Rightarrow> string \<times> string" where
  "match_frac s =
     (case s of
        p # d # cs \<Rightarrow>
          if p = CHR ''.'' \<and> is_digit d
          then (p # takeWhile is_digit (d # cs), dropWhile is_digit (d # cs))
          else ([], s)
      | _ \<Rightarrow> ([], s))"

definition match_exp :: "string \<Rightarrow> string \<times> string" where
  "match_exp s =
     (case s of
        [] \<Rightarrow> ([], s)
      | e # cs \<Rightarrow>
          if e = CHR ''e'' \<or> e = CHR ''E'' then
            (let sign = (case cs of
                           [] \<Rightarrow> []
                         | c # cs' \<Rightarrow> if c = CHR ''+'' \<or> c = CHR ''-'' then [c] else []);
                 ds = drop (length sign) cs
             in if ds \<noteq> [] \<and> is_digit (hd ds)
                then (e # sign @ takeWhile is_digit ds, dropWhile is_digit ds)
                else ([], s))
          else ([], s))"

definition match_number :: "(string \<Rightarrow> pyfloat) \<Rightarrow> string \<Rightarrow> (pyval \<times> string) option" where
  "match_number parse_float s =
     (let minus = (case s of [] \<Rightarrow> [] | c # cs \<Rightarrow> if c = CHR ''-'' then [c] else [])
      in case match_integer (drop (length minus) s) of
           None \<Rightarrow> None
         | Some (integer, s1) \<Rightarrow>
             (case match_frac s1 of
                (frac, s2) \<Rightarrow>
                  (case match_exp s2 of
                     (exp, s3) \<Rightarrow>
                       if frac = [] \<and> exp = []
                       then Some (PyInt (if minus = [] then int (nat_of_digits integer)
                                         else - int (nat_of_digits integer)), s3)
                       else Some (PyFloat (parse_float (minus @ integer @ frac @ exp)), s3))))"

text \<open>\<^verbatim>\<open>dict(pairs)\<close>: a later pair with the same key replaces the value in place.\<close>

definition dict_of_pairs :: "(string \<times> pyval) list \<Rightarrow> (string \<times> pyval) list" where
  "dict_of_pairs pairs = foldl (\<lambda>d kv. AList.update (fst kv) (snd kv) d) [] pairs"

text \<open>
  The scanner: a value at the head of the text, and the text behind it.
  \<open>JSONArray\<close> is the loop over the items of a list, entered at its first item;
  \<open>JSONObject\<close> is the loop over the pairs of a dict, entered behind the opening quote
  of a key. Every call takes one unit of fuel; \<open>json_loads\<close> gives two units per
  character of the text and two more, which no text uses up. The recursion limit
  of the interpreter, which ends the decoding of a text nested some thousand levels
  deep with a \<^verbatim>\<open>RecursionError\<close>, is not part of this definition.
\<close>

fun scan_once :: "(string \<Rightarrow> pyfloat) \<Rightarrow> nat \<Rightarrow> string \<Rightarrow> exc + pyval \<times> string"
  and JSONArray :: "(string \<Rightarrow> pyfloat) \<Rightarrow> nat \<Rightarrow> pyval list \<Rightarrow> string \<Rightarrow> exc + pyval \<times> string"
  and JSONObject ::
    "(string \<Rightarrow> pyfloat) \<Rightarrow> nat \<Rightarrow> (string \<times> pyval) list \<Rightarrow> string \<Rightarrow> exc + pyval \<times> string"
  where
  "scan_once pf 0 s = Inl RecursionError"
| "scan_once pf (Suc fuel) s =
     (case s of
        [] \<Rightarrow> Inl JSONDecodeError
      | nextchar # cs \<Rightarrow>
          if nextchar = CHR 0x22 then
            (case scanstring cs of Inl e \<Rightarrow> Inl e | Inr (str, rest) \<Rightarrow> Inr (PyStr str, rest))
          else if nextchar = CHR ''{'' then
            (case skip_ws cs of
               [] \<Rightarrow> Inl JSONDecodeError
             | c # cs1 \<Rightarrow>
                 if c = CHR ''}'' then Inr (PyDict [], cs1)
                 else if c = CHR 0x22 then JSONObject pf fuel [] cs1
                 else Inl JSONDecodeError)
          else if nextchar = CHR ''['' then
            (case skip_ws cs of
               [] \<Rightarrow> Inl JSONDecodeError
             | c # cs1 \<Rightarrow>
                 if c = CHR '']'' then Inr (PyList [], cs1)
                 else JSONArray pf fuel [] (c # cs1))
          else if nextchar = CHR ''n'' \<and> take 4 s = ''null'' then Inr (PyNone, drop 4 s)
          else if nextchar = CHR ''t'' \<and> take 4 s = ''true'' then Inr (PyBool True, drop 4 s)
          else if nextchar = CHR ''f'' \<and> take 5 s = ''false'' then Inr (PyBool False, drop 5 s)
          else
            (case match_number pf s of
               Some r \<Rightarrow> Inr r
             | None \<Rightarrow>
                 if nextchar = CHR ''N'' \<and> take 3 s = ''NaN'' then Inr (PyFloat FloatNaN, drop 3 s)
                 else if nextchar = CHR ''I'' \<and> take 8 s = ''Infinity''
                   then Inr (PyFloat (FloatInf False), drop 8 s)
                 else if nextchar = CHR ''-'' \<and> take 9 s = ''-Infinity''
                   then Inr (PyFloat (FloatInf True), drop 9 s)
                 else Inl JSONDecodeError))"
| "JSONArray pf 0 values s = Inl RecursionError"
| "JSONArray pf (Suc fuel) values s =
     (case scan_once pf fuel s of
        Inl e \<Rightarrow> Inl e
      | Inr (v, s1) \<Rightarrow>
          (case skip_ws s1 of
             [] \<Rightarrow> Inl JSONDecodeError
           | nextchar # s2 \<Rightarrow>
               if nextchar = CHR '']'' then Inr (PyList (values @ [v]), s2)
               else if nextchar = CHR '','' then JSONArray pf fuel (values @ [v]) (skip_ws s2)
               else Inl JSONDecodeError))"
| "JSONObject pf 0 pairs s = Inl RecursionError"
| "JSONObject pf (Suc fuel) pairs s =
     (case scanstring s of
        Inl e \<Rightarrow> Inl e
      | Inr (key, s1) \<Rightarrow>
          (case skip_ws s1 of
             [] \<Rightarrow> Inl JSONDecodeError
           | colon # s2 \<Rightarrow>
               if colon \<noteq> CHR '':'' then Inl JSONDecodeError
               else
                 (case scan_once pf fuel (skip_ws s2) of
                    Inl e \<Rightarrow> Inl e
                  | Inr (v, s3) \<Rightarrow>
                      (case skip_ws s3 of
                         [] \<Rightarrow> Inl JSONDecodeError
                       | nextchar # s4 \<Rightarrow>
                           if nextchar = CHR ''}''
                           then Inr (PyDict (dict_of_pairs (pairs @ [(key, v)])), s4)
                           else if nextchar = CHR '','' then
                             (case skip_ws s4 of
                                [] \<Rightarrow> Inl JSONDecodeError
                              | q # s5 \<Rightarrow>
                                  if q = CHR 0x22 then JSONObject pf fuel (pairs @ [(key, v)]) s5
                                  else Inl JSONDecodeError)
                           else Inl JSONDecodeError))))"

text \<open>
  \<^verbatim>\<open>json.loads(s)\<close>: white space, one value, white space, and nothing else; anything
  left over is a \<^verbatim>\<open>JSONDecodeError\<close>.
\<close>

definition json_loads :: "(string \<Rightarrow> pyfloat) \<Rightarrow> string \<Rightarrow> exc + pyval" where
  "json_loads parse_float s =
     (case scan_once parse_float (Suc (Suc (length s + length s))) (skip_ws s) of
        Inl e \<Rightarrow> Inl e
      | Inr (obj, rest) \<Rightarrow> if skip_ws rest = [] then Inr obj else Inl JSONDecodeError)"

section \<open>Example inputs\<close>

text \<open>A world in which nothing has happened yet.\<close>

definition world0 :: world where
  "world0 = \<lparr>connects = 0, open_conns = 0, executed = [], printed = []\<rparr>"

text \<open>A database that opens and answers every statement with no rows.\<close>

definition db_empty :: db where
  "db_empty = \<lparr>db_connect = (\<lambda>path. None), db_answer = (\<lambda>stmt. Inr [])\<rparr>"

text \<open>A database that opens and raises \<^verbatim>\<open>sqlite3.Error\<close> on every statement.\<close>

definition db_broken :: db where
  "db_broken = \<lparr>db_connect = (\<lambda>path. None), db_answer = (\<lambda>stmt. Inl SqliteError)\<rparr>"

text \<open>
  A table of two columns, and a database that holds it under the name
  \<^verbatim>\<open>countries_data\<close>.
\<close>

definition example_columns :: "column list" where
  "example_columns =
     [\<lparr>col_name = ''country'', col_type = ''TEXT'', col_notnull = False, col_dflt = None, col_pk = 0\<rparr>,
      \<lparr>col_name = ''population'', col_type = ''INTEGER'', col_notnull = False, col_dflt = None, col_pk = 0\<rparr>]"

definition db_countries :: db where
  "db_countries =
     \<lparr>db_connect = (\<lambda>path. None),
      db_answer = (\<lambda>stmt. if stmt = pragma_stmt ''countries_data''
                           then Inr (table_info example_columns) else Inr [])\<rparr>"

text \<open>
  A decoder that agrees with \<^verbatim>\<open>json.loads\<close> on the replies used in the examples:
  three JSON objects, and any other text taken as undecodable (the examples use
  \<^verbatim>\<open>SELECT 1\<close>, which is not JSON).
\<close>

definition example_loads :: "string \<Rightarrow> exc + pyval" where
  \<open>example_loads s =
     (if s = ''{"sql_query": "SELECT 1"}'' then Inr (PyDict [(''sql_query'', PyStr ''SELECT 1'')])
      else if s = ''{"sql_query": ""}'' then Inr (PyDict [(''sql_query'', PyStr [])])
      else if s = ''{"query": "SELECT 1"}'' then Inr (PyDict [(''query'', PyStr ''SELECT 1'')])
      else Inl JSONDecodeError)\<close>

text \<open>
  Three input records, a router that knows two of the questions, and the same router
  with the embedding service failing on the second question.
\<close>

definition example_records :: "pyval list" where
  "example_records =
     [PyDict [(''query'', PyStr ''Which car is fastest?''), (''category'', PyStr ''cars'')],
      PyDict [(''query'', PyStr ''Where is Egypt?''), (''category'', PyStr ''countries'')],
      PyDict [(''query'', PyStr ''What is for lunch?''), (''category'', PyStr ''none'')]]"

definition example_router :: router where
  "example_router q =
     (if q = PyStr ''Which car is fastest?'' then Inr (Some ''cars'')
      else if q = PyStr ''Where is Egypt?'' then Inr (Some ''countries'')
      else Inr None)"

definition failing_router :: router where
  "failing_router q = (if q = PyStr ''Where is Egypt?'' then Inl OtherError else example_router q)"

text \<open>
  A file system that holds \<^verbatim>\<open>queries.json\<close>, with a decoder that reads its content as
  the three records and an encoder that writes any report as one fixed text.
\<close>

definition example_files :: "string \<rightharpoonup> string" where
  "example_files = [''queries.json'' \<mapsto> ''<queries>'']"

definition example_load :: "string \<Rightarrow> exc + pyval" where
  "example_load s = (if s = ''<queries>'' then Inr (PyList example_records) else Inl JSONDecodeError)"

definition example_dumps :: "pyval \<Rightarrow> exc + string" where
  "example_dumps v = Inr ''<report>''"

text \<open>
  Two routes with one utterance each, and a similarity that scores 9 for a query that
  is one of the route's utterances and 1 otherwise.
\<close>

definition example_routes :: "(string \<times> string list) list" where
  "example_routes = [(''cars'', [''car'']), (''countries'', [''country''])]"

definition example_similarity :: "string \<Rightarrow> string list \<Rightarrow> nat" where
  "example_similarity v utterances = (if v \<in> set utterances then 9 else 1)"




section \<open>Properties\<close>

subsection \<open>The Prompt Builder\<close>

text \<open>
  A text that \<open>format_text\<close> renders completely can be followed by any other text:
  the scan of the rest starts afresh.
\<close>

lemma format_append_both:
  shows "format_text kw pre = Inr out \<Longrightarrow>
      format_text kw (pre @ rest) =
        (case format_text kw rest of Inl e \<Rightarrow> Inl e | Inr out' \<Rightarrow> Inr (out @ out'))"
    and "format_field kw name pre' = Inr out \<Longrightarrow>
      format_field kw name (pre' @ rest) =
        (case format_text kw rest of Inl e \<Rightarrow> Inl e | Inr out' \<Rightarrow> Inr (out @ out'))"
proof (induction kw pre and kw name pre' arbitrary: out and out rule: format_text_format_field.induct)
  case (1 kw)
  then show ?case by (auto split: sum.splits)
next
  case (2 kw c cs)
  show ?case
  proof (cases "c = CHR ''{''")
    case True
    note open_brace = True
    show ?thesis
    proof (cases cs)
      case Nil
      with open_brace "2.prems" show ?thesis by simp
    next
      case (Cons c' cs')
      show ?thesis
      proof (cases "c' = CHR ''{''")
        case True
        with open_brace Cons "2.prems" "2.IH"(1) show ?thesis
          by (auto split: sum.splits)
      next
        case False
        from open_brace Cons False "2.prems" have "format_field kw [] cs = Inr out"
          by simp
        with open_brace Cons False "2.IH"(2)
        have "format_field kw [] (cs @ rest) =
                (case format_text kw rest of Inl e \<Rightarrow> Inl e | Inr out' \<Rightarrow> Inr (out @ out'))"
          by blast
        moreover from open_brace Cons False
        have "format_text kw ((c # cs) @ rest) = format_field kw [] (cs @ rest)"
          by simp
        ultimately show ?thesis by simp
      qed
    qed
  next
    case False
    with "2.prems" "2.IH"(3,4) show ?thesis
      by (auto split: if_splits list.splits sum.splits)
  qed
next
  case (3 kw name)
  then show ?case by simp
next
  case (4 kw name c cs)
  then show ?case by (auto split: if_splits option.splits sum.splits)
qed

lemma format_text_concat:
  "list_all2 (\<lambda>l out. format_text kw l = Inr out) ls outs \<Longrightarrow>
   format_text kw (concat ls) = Inr (concat outs)"
proof (induction ls outs rule: list_all2_induct)
  case Nil
  show ?case by simp
next
  case (Cons l ls out outs)
  then show ?case by (simp add: format_append_both(1))
qed

text \<open>The builder never raises, and its result is the rendered template.\<close>

lemma NL2SQL_PROMPT_format_eq:
  "NL2SQL_PROMPT_format py_str table_name table_sample column_info nl_query =
     Inr (concat (rendered_lines py_str table_name table_sample column_info nl_query))"
  unfolding NL2SQL_PROMPT_format_def str_format_def NL2SQL_PROMPT_def rendered_lines_def
  by (rule format_text_concat) (simp add: format_value_def)

lemma sublist_concat_member: "x \<in> set xss \<Longrightarrow> sublist x (concat xss)"
proof -
  assume "x \<in> set xss"
  then obtain ps ss where "xss = ps @ x # ss" by (meson split_list)
  then have "concat xss = concat ps @ x @ concat ss" by simp
  then show ?thesis unfolding sublist_def by blast
qed

text \<open>
  Claim C5. For all inputs the Prompt Builder returns a prompt (it raises nothing);
  the prompt is the template with its fields filled in, a function of the four
  inputs and of Python's \<^verbatim>\<open>str\<close> alone (the builder reads no world and changes
  none, so equal inputs give the equal prompt); and it contains the
  natural-language query and the table name as contiguous substrings.
\<close>

theorem prompt_builder_contains_query_and_table:
  "\<exists>prompt.
     NL2SQL_PROMPT_format py_str table_name table_sample column_info nl_query = Inr prompt \<and>
     prompt = concat (rendered_lines py_str table_name table_sample column_info nl_query) \<and>
     sublist nl_query prompt \<and> sublist table_name prompt"
proof -
  let ?outs = "rendered_lines py_str table_name table_sample column_info nl_query"
  have q: "nl_query @ ''\<newline>'' \<in> set ?outs"
    by (simp add: rendered_lines_def)
  have t: \<open>''<column_info table_name="'' @ table_name @ ''">\<newline>'' \<in> set ?outs\<close>
    by (simp add: rendered_lines_def)
  have "sublist nl_query (nl_query @ ''\<newline>'')" by simp
  with q have 1: "sublist nl_query (concat ?outs)"
    using sublist_concat_member sublist_order.order_trans by blast
  have \<open>sublist table_name (''<column_info table_name="'' @ table_name @ ''">\<newline>'')\<close>
    by (rule sublist_appendI)
  with t have 2: "sublist table_name (concat ?outs)"
    using sublist_concat_member sublist_order.order_trans by blast
  from 1 2 show ?thesis
    using NL2SQL_PROMPT_format_eq by blast
qed

subsection \<open>The NL2SQL Client and the Query Executor\<close>



text \<open>
  When the reply decodes but the subscription \<^verbatim>\<open>response_dictionary["sql_query"]\<close>
  raises (\<^verbatim>\<open>KeyError\<close> for a dict without the key, \<^verbatim>\<open>TypeError\<close> for any other
  value), the exception is not a \<^verbatim>\<open>JSONDecodeError\<close> and ends the script;
  \<^verbatim>\<open>sql_query\<close> is never bound.
\<close>

lemma missing_key_raises:
  assumes "loads reply = Inr v" and "py_getitem v ''sql_query'' = Inl e"
  shows "parse_and_run loads d (Some reply) w =
           \<lparr>uncaught = Some e, sql_query_var = None, final = print (OutValue (PyStr reply)) w\<rparr>
         \<and> (e = KeyError \<or> e = TypeError)"
proof -
  from assms(2) have e: "e = KeyError \<or> e = TypeError"
    by (cases v) (auto split: option.splits)
  then have "e \<noteq> JSONDecodeError" by auto
  with assms e show ?thesis
    by (simp add: parse_and_run_def extract_info_def)
qed

text \<open>
  Claim C1 says that a reply that is valid JSON but lacks the key \<^verbatim>\<open>sql_query\<close> yields
  \<^verbatim>\<open>sql_query = None\<close> without an uncaught exception. The code at the reply
  \<^verbatim>\<open>{"query": "SELECT 1"}\<close>: the script ends with an uncaught \<^verbatim>\<open>KeyError\<close> and
  \<^verbatim>\<open>sql_query\<close> unbound; only the reply has been printed, and the Query Executor has
  not run.
\<close>

theorem missing_key_reply_ends_in_uncaught_KeyError:
  \<open>parse_and_run example_loads db_empty (Some ''{"query": "SELECT 1"}'') world0 =
     \<lparr>uncaught = Some KeyError, sql_query_var = None,
      final = world0\<lparr>printed := [OutValue (PyStr ''{"query": "SELECT 1"}'')]\<rparr>\<rparr>\<close>
  by (simp add: parse_and_run_def extract_info_def example_loads_def print_def world0_def)

text \<open>What the Query Executor does to the world.\<close>

lemma print_rows_fields [simp]:
  "connects (print_rows rs w) = connects w"
  "open_conns (print_rows rs w) = open_conns w"
  "executed (print_rows rs w) = executed w"
  unfolding print_rows_def
  by (induction rs arbitrary: w) (simp_all add: print_def)

lemma run_sql_query_truthy:
  assumes "truthy q"
  shows "connects (snd (run_sql_query d q w)) = connects w + 1"
    and "executed (snd (run_sql_query d q w)) =
           executed w @ (if db_connect d db_path = None then [q] else [])"
    and "open_conns (snd (run_sql_query d q w)) =
           open_conns w + (if db_connect d db_path = None \<and> isl (statement_result d q) then 1 else 0)"
  using assms
  by (auto simp: run_sql_query_def sqlite3_connect_def execute_fetchall_def run_except_def
        conn_close_def print_def split: option.splits sum.splits)

lemma run_sql_query_falsy: "\<not> truthy q \<Longrightarrow> run_sql_query d q w = (None, w)"
  by (simp add: run_sql_query_def)

lemma parse_and_run_keeps_sql_query:
  assumes "loads reply = Inr v" and "py_getitem v ''sql_query'' = Inr q"
  shows "sql_query_var (parse_and_run loads d (Some reply) w) = Some q"
  using assms by (simp add: parse_and_run_def extract_info_def split: prod.splits)

text \<open>
  Claim C3 as stated fails: the reply \<^verbatim>\<open>{"sql_query": ""}\<close> binds \<^verbatim>\<open>sql_query\<close> to the
  empty string, which is present (it is not \<^verbatim>\<open>None\<close>), and the guard
  \<^verbatim>\<open>if sql_query:\<close> skips the executor: no connection, no statement.
\<close>

theorem empty_sql_query_is_present_but_not_attempted:
  \<open>sql_query_var (parse_and_run example_loads db_empty (Some ''{"sql_query": ""}'') world0) = Some (PyStr []) \<and>
   PyStr [] \<noteq> PyNone \<and>
   uncaught (parse_and_run example_loads db_empty (Some ''{"sql_query": ""}'') world0) = None \<and>
   connects (final (parse_and_run example_loads db_empty (Some ''{"sql_query": ""}'') world0)) = 0 \<and>
   executed (final (parse_and_run example_loads db_empty (Some ''{"sql_query": ""}'') world0)) = []\<close>
  by (simp add: parse_and_run_def extract_info_def example_loads_def print_def world0_def
        run_sql_query_def)

text \<open>
  Claim C3, amended. For every \<^verbatim>\<open>sql_query\<close> that is truthy (for a string: not empty)
  the Query Executor calls \<^verbatim>\<open>sqlite3.connect\<close> exactly once and, when the connection
  opens, hands that value to \<^verbatim>\<open>cursor.execute\<close> exactly once, whatever the database
  answers: a failure is not retried. When the connection does not open, nothing is
  executed. When \<^verbatim>\<open>sql_query\<close> is falsy (\<^verbatim>\<open>None\<close> or the empty string) the executor does
  nothing at all. In every case the variable \<^verbatim>\<open>sql_query\<close> still holds the value taken
  from the reply when the script ends.
\<close>

theorem executor_attempts_truthy_query_once:
  "(truthy q \<longrightarrow>
      connects (snd (run_sql_query d q w)) = connects w + 1 \<and>
      executed (snd (run_sql_query d q w)) =
        executed w @ (if db_connect d db_path = None then [q] else [])) \<and>
   (\<not> truthy q \<longrightarrow> run_sql_query d q w = (None, w)) \<and>
   (loads reply = Inr v \<and> py_getitem v ''sql_query'' = Inr q \<longrightarrow>
      sql_query_var (parse_and_run loads d (Some reply) w) = Some q)"
  using run_sql_query_truthy(1,2) run_sql_query_falsy parse_and_run_keeps_sql_query
  by blast

theorem executor_attempts_truthy_query_once_witness:
  \<open>truthy (PyStr ''SELECT 1'') \<and>
   connects (snd (run_sql_query db_broken (PyStr ''SELECT 1'') world0)) = 1 \<and>
   executed (snd (run_sql_query db_broken (PyStr ''SELECT 1'') world0)) = [PyStr ''SELECT 1''] \<and>
   \<not> truthy (PyStr []) \<and>
   run_sql_query db_broken (PyStr []) world0 = (None, world0) \<and>
   example_loads ''{"sql_query": "SELECT 1"}'' = Inr (PyDict [(''sql_query'', PyStr ''SELECT 1'')]) \<and>
   sql_query_var (parse_and_run example_loads db_broken (Some ''{"sql_query": "SELECT 1"}'') world0) =
     Some (PyStr ''SELECT 1'')\<close>
proof -
  have l: \<open>example_loads ''{"sql_query": "SELECT 1"}'' = Inr (PyDict [(''sql_query'', PyStr ''SELECT 1'')])\<close>
    by (simp add: example_loads_def)
  have g: "py_getitem (PyDict [(''sql_query'', PyStr ''SELECT 1'')]) ''sql_query'' = Inr (PyStr ''SELECT 1'')"
    by simp
  show ?thesis
    using l g
      executor_attempts_truthy_query_once
        [of "PyStr ''SELECT 1''" db_broken world0 example_loads \<open>''{"sql_query": "SELECT 1"}''\<close>
            "PyDict [(''sql_query'', PyStr ''SELECT 1'')]"]
      executor_attempts_truthy_query_once
        [of "PyStr []" db_broken world0 example_loads \<open>''{"sql_query": "SELECT 1"}''\<close>
            "PyDict [(''sql_query'', PyStr ''SELECT 1'')]"]
    by (simp add: world0_def db_broken_def)
qed

subsection \<open>Connections\<close>

lemma helper_except_fields [simp]:
  "connects (helper_except e w) = connects w"
  "open_conns (helper_except e w) = open_conns w"
  "executed (helper_except e w) = executed w"
  by (simp_all add: helper_except_def print_def)

lemma get_column_info_conns:
  "connects (snd (get_column_info d f t w)) = connects w + 1"
  "open_conns (snd (get_column_info d f t w)) =
     open_conns w + (if db_connect d f = None \<and> isl (db_answer d (pragma_stmt t)) then 1 else 0)"
  by (auto simp: get_column_info_def sqlite3_connect_def execute_fetchall_def statement_result_def
        conn_close_def Let_def split: option.splits sum.splits)

lemma get_table_sample_conns:
  "connects (snd (get_table_sample d f t w)) = connects w + 1"
  "open_conns (snd (get_table_sample d f t w)) =
     open_conns w + (if db_connect d f = None \<and> isl (db_answer d (sample_stmt t)) then 1 else 0)"
  by (auto simp: get_table_sample_def sqlite3_connect_def execute_fetchall_def statement_result_def
        conn_close_def Let_def split: option.splits sum.splits)

text \<open>
  Claim C2 as stated fails: on a database that opens and then raises
  \<^verbatim>\<open>sqlite3.Error\<close> on the statement, each of the three operations starts with no open
  connection and ends with one. \<^verbatim>\<open>conn.close()\<close> is the last statement of the \<^verbatim>\<open>try\<close>
  body and the handlers do not close.
\<close>

theorem failed_statement_leaves_connection_open:
  "open_conns world0 = 0 \<and>
   open_conns (snd (get_column_info db_broken db_path ''countries_data'' world0)) = 1 \<and>
   open_conns (snd (get_table_sample db_broken db_path ''countries_data'' world0)) = 1 \<and>
   open_conns (snd (run_sql_query db_broken (PyStr ''SELECT 1'') world0)) = 1"
  by (simp add: get_column_info_def get_table_sample_def run_sql_query_def sqlite3_connect_def
        execute_fetchall_def statement_result_def run_except_def helper_except_def print_def
        db_broken_def world0_def)

text \<open>
  Claim C2, amended. Each database operation (schema introspection, table sampling,
  and SQL execution when \<^verbatim>\<open>sql_query\<close> is truthy) calls \<^verbatim>\<open>sqlite3.connect\<close> exactly once.
  The connection it opens is closed by the operation when the statement executes
  and its rows are fetched without an exception, and nothing is left open when the
  connection itself fails to open; when the statement raises, the operation ends
  with that connection still open.
\<close>

theorem connection_closed_unless_statement_raises:
  "connects (snd (get_column_info d f t w)) = connects w + 1 \<and>
   open_conns (snd (get_column_info d f t w)) =
     open_conns w + (if db_connect d f = None \<and> isl (db_answer d (pragma_stmt t)) then 1 else 0) \<and>
   connects (snd (get_table_sample d f t w)) = connects w + 1 \<and>
   open_conns (snd (get_table_sample d f t w)) =
     open_conns w + (if db_connect d f = None \<and> isl (db_answer d (sample_stmt t)) then 1 else 0) \<and>
   (truthy q \<longrightarrow>
      connects (snd (run_sql_query d q w)) = connects w + 1 \<and>
      open_conns (snd (run_sql_query d q w)) =
        open_conns w + (if db_connect d db_path = None \<and> isl (statement_result d q) then 1 else 0))"
  using get_column_info_conns get_table_sample_conns run_sql_query_truthy(1,3)
  by presburger

theorem connection_closed_unless_statement_raises_witness:
  "connects (snd (get_column_info db_countries db_path ''countries_data'' world0)) = 1 \<and>
   open_conns (snd (get_column_info db_countries db_path ''countries_data'' world0)) = 0 \<and>
   connects (snd (get_table_sample db_countries db_path ''countries_data'' world0)) = 1 \<and>
   open_conns (snd (get_table_sample db_countries db_path ''countries_data'' world0)) = 0 \<and>
   truthy (PyStr ''SELECT 1'') \<and>
   connects (snd (run_sql_query db_countries (PyStr ''SELECT 1'') world0)) = 1 \<and>
   open_conns (snd (run_sql_query db_countries (PyStr ''SELECT 1'') world0)) = 0"
  using connection_closed_unless_statement_raises
    [of db_countries db_path "''countries_data''" world0 "PyStr ''SELECT 1''"]
  by (simp add: db_countries_def world0_def statement_result_def)

subsection \<open>The Schema Introspector\<close>






subsection \<open>The Batch Classifier\<close>

text \<open>A report that the loop returns extends the one it started from by one dict per record.\<close>

lemma report_loop_shape:
  "report_loop rl acc records = Inr report \<Longrightarrow>
     \<exists>new. report = acc @ new \<and> length new = length records \<and>
           map (\<lambda>a. py_getitem a ''query'') new = map (\<lambda>q. py_getitem q ''query'') records \<and>
           map (\<lambda>a. py_getitem a ''category'') new = map (\<lambda>q. py_getitem q ''category'') records"
proof (induction records arbitrary: acc)
  case Nil
  then show ?case by simp
next
  case (Cons query queries)
  from Cons.prems obtain qtext route c where
    q: "py_getitem query ''query'' = Inr qtext" and r: "rl qtext = Inr route"
    and c: "py_getitem query ''category'' = Inr c"
    and rest: "report_loop rl (acc @ [PyDict [(''query'', qtext), (''category'', c),
                 (''route'', case route of None \<Rightarrow> PyNone | Some name \<Rightarrow> PyStr name)]]) queries =
               Inr report"
    by (auto split: sum.splits)
  let ?a = "PyDict [(''query'', qtext), (''category'', c),
                 (''route'', case route of None \<Rightarrow> PyNone | Some name \<Rightarrow> PyStr name)]"
  from Cons.IH [OF rest] obtain new where
    new: "report = (acc @ [?a]) @ new" "length new = length queries"
      "map (\<lambda>a. py_getitem a ''query'') new = map (\<lambda>q. py_getitem q ''query'') queries"
      "map (\<lambda>a. py_getitem a ''category'') new = map (\<lambda>q. py_getitem q ''category'') queries"
    by blast
  have "report = acc @ (?a # new)" using new(1) by simp
  moreover have "length (?a # new) = length (query # queries)" using new(2) by simp
  moreover have "map (\<lambda>a. py_getitem a ''query'') (?a # new) =
                 map (\<lambda>q. py_getitem q ''query'') (query # queries)"
    using new(3) q by simp
  moreover have "map (\<lambda>a. py_getitem a ''category'') (?a # new) =
                 map (\<lambda>q. py_getitem q ''category'') (query # queries)"
    using new(4) c by simp
  ultimately show ?case by blast
qed

text \<open>The loop returns when every record has both keys and the router answers for it.\<close>

lemma report_loop_total:
  "\<forall>q\<in>set records. \<exists>qtext c route.
       py_getitem q ''query'' = Inr qtext \<and> py_getitem q ''category'' = Inr c \<and>
       rl qtext = Inr route \<Longrightarrow>
   \<exists>report. report_loop rl acc records = Inr report"
proof (induction records arbitrary: acc)
  case Nil
  show ?case by simp
next
  case (Cons query queries)
  from Cons.prems obtain qtext c route where
    "py_getitem query ''query'' = Inr qtext" "py_getitem query ''category'' = Inr c"
    "rl qtext = Inr route"
    by auto
  moreover from Cons.prems have "\<forall>q\<in>set queries. \<exists>qtext c route.
       py_getitem q ''query'' = Inr qtext \<and> py_getitem q ''category'' = Inr c \<and>
       rl qtext = Inr route"
    by simp
  ultimately show ?case using Cons.IH by simp
qed

text \<open>
  Claim C7. For every input list of records that have the keys \<^verbatim>\<open>query\<close> and
  \<^verbatim>\<open>category\<close>, and a router that answers for each query, the loop ends without
  an exception and the script saves a report that has exactly one entry per input
  record, whose queries (and categories) are those of the input in the same order.
\<close>

theorem batch_classifier_one_per_record_in_order:
  assumes "fs ''queries.json'' = Some content"
      and "loads content = Inr (PyList records)"
      and "\<forall>q\<in>set records. \<exists>qtext c route.
             py_getitem q ''query'' = Inr qtext \<and> py_getitem q ''category'' = Inr c \<and>
             rl qtext = Inr route"
  shows "\<exists>report.
           report_loop rl [] records = Inr report \<and>
           router_script (Inr rl) loads dumps fs = save_report dumps report fs \<and>
           length report = length records \<and>
           map (\<lambda>a. py_getitem a ''query'') report = map (\<lambda>q. py_getitem q ''query'') records \<and>
           map (\<lambda>a. py_getitem a ''category'') report =
             map (\<lambda>q. py_getitem q ''category'') records"
proof -
  from report_loop_total [OF assms(3)] obtain report where
    r: "report_loop rl [] records = Inr report" by blast
  from report_loop_shape [OF r] have
    "length report = length records"
    "map (\<lambda>a. py_getitem a ''query'') report = map (\<lambda>q. py_getitem q ''query'') records"
    "map (\<lambda>a. py_getitem a ''category'') report = map (\<lambda>q. py_getitem q ''category'') records"
    by auto
  moreover from assms(1,2) r have
    "router_script (Inr rl) loads dumps fs = save_report dumps report fs"
    by (simp add: router_script_def load_json_def)
  ultimately show ?thesis using r by blast
qed

theorem batch_classifier_one_per_record_in_order_witness:
  "example_files ''queries.json'' = Some ''<queries>'' \<and>
   example_load ''<queries>'' = Inr (PyList example_records) \<and>
   router_script (Inr example_router) example_load example_dumps example_files =
     (None, example_files(''report.json'' \<mapsto> ''<report>'')) \<and>
   report_loop example_router [] example_records =
     Inr [PyDict [(''query'', PyStr ''Which car is fastest?''), (''category'', PyStr ''cars''),
                  (''route'', PyStr ''cars'')],
          PyDict [(''query'', PyStr ''Where is Egypt?''), (''category'', PyStr ''countries''),
                  (''route'', PyStr ''countries'')],
          PyDict [(''query'', PyStr ''What is for lunch?''), (''category'', PyStr ''none''),
                  (''route'', PyNone)]]"
proof -
  have f: "example_files ''queries.json'' = Some ''<queries>''"
    by (simp add: example_files_def)
  have l: "example_load ''<queries>'' = Inr (PyList example_records)"
    by (simp add: example_load_def)
  have wf: "\<forall>q\<in>set example_records. \<exists>qtext c route.
             py_getitem q ''query'' = Inr qtext \<and> py_getitem q ''category'' = Inr c \<and>
             example_router qtext = Inr route"
    by (simp add: example_records_def example_router_def)
  from f l wf
    batch_classifier_one_per_record_in_order
      [where fs = example_files and content = "''<queries>''" and loads = example_load
         and records = example_records and rl = example_router and dumps = example_dumps]
  obtain report where
    "router_script (Inr example_router) example_load example_dumps example_files =
       save_report example_dumps report example_files"
    by blast
  then have "router_script (Inr example_router) example_load example_dumps example_files =
       (None, example_files(''report.json'' \<mapsto> ''<report>''))"
    by (simp add: save_report_def example_dumps_def)
  moreover have "report_loop example_router [] example_records =
     Inr [PyDict [(''query'', PyStr ''Which car is fastest?''), (''category'', PyStr ''cars''),
                  (''route'', PyStr ''cars'')],
          PyDict [(''query'', PyStr ''Where is Egypt?''), (''category'', PyStr ''countries''),
                  (''route'', PyStr ''countries'')],
          PyDict [(''query'', PyStr ''What is for lunch?''), (''category'', PyStr ''none''),
                  (''route'', PyNone)]]"
    by (simp add: example_records_def example_router_def)
  ultimately show ?thesis using f l by simp
qed

text \<open>A router call that raises at some record ends the loop with an exception.\<close>

lemma report_loop_raises:
  "\<exists>q\<in>set records. \<exists>qtext e. py_getitem q ''query'' = Inr qtext \<and> rl qtext = Inl e \<Longrightarrow>
   \<exists>e. report_loop rl acc records = Inl e"
proof (induction records arbitrary: acc)
  case Nil
  then show ?case by simp
next
  case (Cons query queries)
  show ?case
  proof (cases "\<exists>qtext e. py_getitem query ''query'' = Inr qtext \<and> rl qtext = Inl e")
    case True
    then show ?thesis by auto
  next
    case False
    with Cons.prems
    have "\<exists>q\<in>set queries. \<exists>qtext e. py_getitem q ''query'' = Inr qtext \<and> rl qtext = Inl e"
      by auto
    from Cons.IH [OF this] show ?thesis
      by (auto split: sum.splits)
  qed
qed

text \<open>
  The script changes the files only in its last statement: whenever the files
  after a run differ from those before it, every record has been classified.
\<close>

lemma router_script_writes_only_after_loop:
  "snd (router_script make_router loads dumps fs) \<noteq> fs \<Longrightarrow>
     \<exists>rl queries records report.
        make_router = Inr rl \<and> load_json loads ''queries.json'' fs = Inr queries \<and>
        py_iter queries = Inr records \<and> report_loop rl [] records = Inr report \<and>
        length report = length records"
  by (auto simp: router_script_def split: sum.splits dest: report_loop_shape)

text \<open>
  Claim C10. If the router call raises at any record of the input, the script ends
  with an uncaught exception and the file system is exactly what it was before the
  run: \<^verbatim>\<open>report.json\<close> is not written, not even in part.
\<close>

theorem router_failure_writes_no_report:
  assumes "fs ''queries.json'' = Some content"
      and "loads content = Inr queries"
      and "py_iter queries = Inr records"
      and "\<exists>q\<in>set records. \<exists>qtext e. py_getitem q ''query'' = Inr qtext \<and> rl qtext = Inl e"
  shows "\<exists>e. router_script (Inr rl) loads dumps fs = (Some e, fs)"
proof -
  from report_loop_raises [OF assms(4)] obtain e where "report_loop rl [] records = Inl e"
    by blast
  with assms(1-3) show ?thesis by (simp add: router_script_def load_json_def)
qed

theorem router_failure_writes_no_report_witness:
  "example_files ''queries.json'' = Some ''<queries>'' \<and>
   example_load ''<queries>'' = Inr (PyList example_records) \<and>
   py_iter (PyList example_records) = Inr example_records \<and>
   py_getitem (example_records ! 1) ''query'' = Inr (PyStr ''Where is Egypt?'') \<and>
   failing_router (PyStr ''Where is Egypt?'') = Inl OtherError \<and>
   router_script (Inr failing_router) example_load example_dumps example_files =
     (Some OtherError, example_files) \<and>
   example_files ''report.json'' = None"
proof -
  have f: "example_files ''queries.json'' = Some ''<queries>''"
    by (simp add: example_files_def)
  have l: "example_load ''<queries>'' = Inr (PyList example_records)"
    by (simp add: example_load_def)
  have i: "py_iter (PyList example_records) = Inr example_records"
    by simp
  have g: "py_getitem (example_records ! 1) ''query'' = Inr (PyStr ''Where is Egypt?'')"
    by (simp add: example_records_def)
  have r: "failing_router (PyStr ''Where is Egypt?'') = Inl OtherError"
    by (simp add: failing_router_def)
  have "example_records ! 1 \<in> set example_records"
    by (simp add: example_records_def)
  with g r have bad: "\<exists>q\<in>set example_records. \<exists>qtext e.
      py_getitem q ''query'' = Inr qtext \<and> failing_router qtext = Inl e"
    by blast
  from f l i bad
    router_failure_writes_no_report
      [where fs = example_files and content = "''<queries>''" and loads = example_load
         and queries = "PyList example_records" and records = example_records
         and rl = failing_router and dumps = example_dumps]
  obtain e where
    e: "router_script (Inr failing_router) example_load example_dumps example_files =
          (Some e, example_files)"
    by blast
  have "router_script (Inr failing_router) example_load example_dumps example_files =
          (Some OtherError, example_files)"
    by (simp add: router_script_def load_json_def example_files_def example_load_def
          example_records_def failing_router_def example_router_def)
  moreover have "example_files ''report.json'' = None"
    by (simp add: example_files_def)
  ultimately show ?thesis using f l i g r e by simp
qed

subsection \<open>The report file\<close>

text \<open>
  What the encoder writes for a string, the scanner reads back: first for one
  character, then for a whole string up to its closing quote.
\<close>

lemma hex_digit_value_all: "\<forall>k\<in>{0..<16::nat}. hex_value (hex_digit k) = Some k"
  by code_simp

lemma hex_value_hex_digit: "k < 16 \<Longrightarrow> hex_value (hex_digit k) = Some k"
  using hex_digit_value_all by simp

lemma hex_value_zero: "hex_value (CHR ''0'') = Some 0"
  by (simp add: hex_value_def)

lemma decode_escape:
  "decode_uXXXX (CHR ''0'') (CHR ''0'') (hex_digit (of_char c div 16)) (hex_digit (of_char c mod 16))
     = Some (of_char c)"
proof -
  have "(of_char c :: nat) < 256" by simp
  then have "(of_char c :: nat) div 16 < 16" by presburger
  moreover have "(of_char c :: nat) mod 16 < 16" by simp
  ultimately show ?thesis
    by (simp add: decode_uXXXX_def hex_value_zero hex_value_hex_digit)
qed

lemma scanstring_escape_char:
  "scanstring (escape_char c @ tail) =
     (case scanstring tail of Inl e \<Rightarrow> Inl e | Inr (s, rest) \<Rightarrow> Inr (c # s, rest))"
proof -
  consider (q) "c = CHR 0x22" | (b) "c = CHR 0x5C" | (n) "c = CHR 0x0A" | (r) "c = CHR 0x0D"
    | (t) "c = CHR 0x09" | (bs) "c = CHR 0x08" | (ff) "c = CHR 0x0C"
    | (u) "c \<noteq> CHR 0x22" "c \<noteq> CHR 0x5C" "c \<noteq> CHR 0x0A" "c \<noteq> CHR 0x0D" "c \<noteq> CHR 0x09"
          "c \<noteq> CHR 0x08" "c \<noteq> CHR 0x0C" "(of_char c :: nat) < 0x20 \<or> 0x7E < (of_char c :: nat)"
    | (p) "c \<noteq> CHR 0x22" "c \<noteq> CHR 0x5C" "\<not> ((of_char c :: nat) < 0x20 \<or> 0x7E < (of_char c :: nat))"
    by blast
  then show ?thesis
  proof cases
    case u
    have "(of_char c :: nat) < 256" by simp
    with u show ?thesis
      by (simp add: escape_char_def decode_escape split: sum.splits)
  next
    case p
    then have "escape_char c = [c]"
      by (auto simp: escape_char_def)
    with p show ?thesis by (simp split: sum.splits)
  qed (simp_all add: escape_char_def backslash_def split: sum.splits)
qed

lemma scanstring_encoded:
  "scanstring (concat (map escape_char s) @ CHR 0x22 # rest) = Inr (s, rest)"
  by (induction s) (simp_all add: scanstring_escape_char)






lemma not_ws [simp]:
  "\<not> is_ws (CHR 0x22)" "\<not> is_ws (CHR ''{'')" "\<not> is_ws (CHR ''}'')" "\<not> is_ws (CHR ''['')"
  "\<not> is_ws (CHR '']'')" "\<not> is_ws (CHR '','')" "\<not> is_ws (CHR '':'')" "\<not> is_ws (CHR ''n'')"
  by (simp_all add: is_ws_def)


lemma scan_once_str:
  "scan_once pf (Suc fuel) (encode_basestring_ascii s @ rest) = Inr (PyStr s, rest)"
  by (simp add: encode_basestring_ascii_def scanstring_encoded)

lemma scan_once_null:
  "scan_once pf (Suc fuel) (''null'' @ rest) = Inr (PyNone, rest)"
  by simp







lemma iterencode_RouteAssignment_nonempty:
  "iterencode fr level (RouteAssignment q c r) = CHR ''{'' # tl (iterencode fr level (RouteAssignment q c r))"
  by (simp add: RouteAssignment_def)













text \<open>
  The decoder of the examples agrees with \<open>json_loads\<close> on the replies the examples
  use.
\<close>

lemma example_loads_agrees:
  \<open>json_loads pf ''{"sql_query": "SELECT 1"}'' = example_loads ''{"sql_query": "SELECT 1"}''\<close>
  \<open>json_loads pf ''{"sql_query": ""}'' = example_loads ''{"sql_query": ""}''\<close>
  \<open>json_loads pf ''{"query": "SELECT 1"}'' = example_loads ''{"query": "SELECT 1"}''\<close>
  \<open>json_loads pf ''SELECT 1'' = example_loads ''SELECT 1''\<close>
  by (simp_all add: json_loads_def example_loads_def skip_ws_def is_ws_def dict_of_pairs_def
        match_number_def match_integer_def is_digit_def)

text \<open>
  The fuel of the decoder is never used up. Every value, list and dict that the
  scanner reads takes at least one character of the text, so two units of fuel per
  character are enough for any text, well formed or not.
\<close>

lemma length_skip_ws: "length (skip_ws s) \<le> length s"
  by (simp add: skip_ws_def length_dropWhile_le)

lemma skip_ws_Cons_length: "skip_ws s = c # cs \<Longrightarrow> length cs < length s"
  using length_skip_ws [of s] by simp

lemma scanstring_shorter: "scanstring s = Inr (str, rest) \<Longrightarrow> length rest < length s"
proof (induction s arbitrary: str rest rule: scanstring.induct)
  case 1
  then show ?case by simp
next
  case (2 c cs)
  show ?case
  proof (cases "c = CHR 0x22")
    case True
    with "2.prems" show ?thesis by simp
  next
    case nq: False
    show ?thesis
    proof (cases "c = CHR 0x5C")
      case True
      note bs = True
      show ?thesis
      proof (cases cs)
        case Nil
        with nq bs "2.prems" show ?thesis by simp
      next
        case (Cons esc cs1)
        show ?thesis
        proof (cases "esc = CHR ''u''")
          case True
          with nq bs Cons "2.prems" obtain h1 h2 h3 h4 cs2 n s' where
            cs1: "cs1 = h1 # h2 # h3 # h4 # cs2" and
            d: "decode_uXXXX h1 h2 h3 h4 = Some n" "n < 256" and
            r: "scanstring cs2 = Inr (s', rest)"
            by (auto split: list.splits option.splits if_splits sum.splits)
          from "2.IH"(1) [OF nq bs Cons True cs1 refl refl refl d r]
          have "length rest < length cs2" .
          with Cons cs1 show ?thesis by simp
        next
          case False
          with nq bs Cons "2.prems" obtain ch s' where
            b: "backslash esc = Some ch" and r: "scanstring cs1 = Inr (s', rest)"
            by (auto split: option.splits sum.splits)
          from "2.IH"(2) [OF nq bs Cons False b r] have "length rest < length cs1" .
          with Cons show ?thesis by simp
        qed
      qed
    next
      case False
      with nq "2.prems" obtain s' where
        c: "\<not> (of_char c :: nat) < 0x20" and r: "scanstring cs = Inr (s', rest)"
        by (auto split: if_splits sum.splits)
      from "2.IH"(3) [OF nq False c r] have "length rest < length cs" .
      then show ?thesis by simp
    qed
  qed
qed


lemma match_integer_shorter:
  "match_integer s = Some (ds, rest) \<Longrightarrow> length rest < length s"
proof (cases s)
  case Nil
  assume "match_integer s = Some (ds, rest)"
  with Nil show ?thesis by (simp add: match_integer_def)
next
  case (Cons c cs)
  assume m: "match_integer s = Some (ds, rest)"
  show ?thesis
  proof (cases "c = CHR ''0''")
    case True
    with m Cons show ?thesis by (simp add: match_integer_def)
  next
    case False
    with m Cons have d: "is_digit c" and r: "rest = dropWhile is_digit cs"
      by (auto simp: match_integer_def split: if_splits)
    have "length (dropWhile is_digit cs) \<le> length cs" by (rule length_dropWhile_le)
    with r Cons show ?thesis by simp
  qed
qed

lemma match_frac_shorter: "match_frac s = (frac, rest) \<Longrightarrow> length rest \<le> length s"
proof -
  assume m: "match_frac s = (frac, rest)"
  have "\<And>xs. length (dropWhile is_digit xs) \<le> Suc (Suc (length xs))"
    using length_dropWhile_le [of is_digit] le_SucI by blast
  with m show ?thesis
    by (auto simp: match_frac_def split: list.splits if_splits)
qed

lemma match_exp_shorter: "match_exp s = (ex, rest) \<Longrightarrow> length rest \<le> length s"
proof (cases s)
  case Nil
  assume "match_exp s = (ex, rest)"
  with Nil show ?thesis by (simp add: match_exp_def)
next
  case (Cons e cs)
  assume m: "match_exp s = (ex, rest)"
  have "\<And>n. length (dropWhile is_digit (drop n cs)) \<le> length cs"
    using length_dropWhile_le [of is_digit] by (metis le_trans length_drop diff_le_self)
  with m Cons show ?thesis
    by (auto simp: match_exp_def Let_def le_SucI split: if_splits)
qed

lemma match_number_shorter:
  assumes "match_number pf s = Some (v, rest)"
  shows "length rest < length s"
proof -
  define minus where "minus = (case s of [] \<Rightarrow> [] | c # cs \<Rightarrow> if c = CHR ''-'' then [c] else [])"
  from assms obtain ds s1 frac s2 ex where
    i: "match_integer (drop (length minus) s) = Some (ds, s1)" and
    f: "match_frac s1 = (frac, s2)" and e: "match_exp s2 = (ex, rest)"
    by (auto simp: match_number_def minus_def Let_def split: option.splits prod.splits if_splits)
  from match_integer_shorter [OF i] have "length s1 < length s" by simp
  with match_frac_shorter [OF f] match_exp_shorter [OF e] show ?thesis by simp
qed

lemma take_literal_length: "take n s = lit \<Longrightarrow> length lit = n \<Longrightarrow> n \<le> length s"
  by (metis length_take min.cobounded1 min_def nat_le_linear take_all)

lemma scan_progress:
  shows "scan_once pf fuel s = Inr (v, rest) \<Longrightarrow> length rest < length s"
    and "JSONArray pf fuel vs s = Inr (v, rest) \<Longrightarrow> length rest < length s"
    and "JSONObject pf fuel ps s = Inr (v, rest) \<Longrightarrow> length rest < length s"
proof (induction pf fuel s and pf fuel vs s and pf fuel ps s arbitrary: v rest and v rest and v rest
       rule: scan_once_JSONArray_JSONObject.induct)
  case (1 pf s)
  then show ?case by simp
next
  case (2 pf fuel s)
  from "2.prems" obtain nextchar cs where s: "s = nextchar # cs"
    by (cases s) simp_all
  consider (str) "nextchar = CHR 0x22"
    | (obj) "nextchar \<noteq> CHR 0x22" "nextchar = CHR ''{''"
    | (arr) "nextchar \<noteq> CHR 0x22" "nextchar \<noteq> CHR ''{''" "nextchar = CHR ''[''"
    | (other) "nextchar \<noteq> CHR 0x22" "nextchar \<noteq> CHR ''{''" "nextchar \<noteq> CHR ''[''"
    by blast
  then show ?case
  proof cases
    case str
    with "2.prems" s obtain str' where "scanstring cs = Inr (str', rest)"
      by (auto split: sum.splits)
    from scanstring_shorter [OF this] s show ?thesis by simp
  next
    case obj
    with "2.prems" s obtain c cs1 where sk: "skip_ws cs = c # cs1"
      by (auto split: list.splits)
    from skip_ws_Cons_length [OF sk] have l: "length cs1 < length cs" .
    show ?thesis
    proof (cases "c = CHR ''}''")
      case True
      with "2.prems" s obj sk l show ?thesis by simp
    next
      case False
      with "2.prems" s obj sk have q: "c = CHR 0x22" and
        r: "JSONObject pf fuel [] cs1 = Inr (v, rest)"
        by (auto split: if_splits)
      from "2.IH"(1) [OF s obj(1) obj(2) sk False q r] l s show ?thesis by simp
    qed
  next
    case arr
    with "2.prems" s obtain c cs1 where sk: "skip_ws cs = c # cs1"
      by (auto split: list.splits)
    from skip_ws_Cons_length [OF sk] have l: "length cs1 < length cs" .
    show ?thesis
    proof (cases "c = CHR '']''")
      case True
      with "2.prems" s arr sk l show ?thesis by simp
    next
      case False
      with "2.prems" s arr sk have r: "JSONArray pf fuel [] (c # cs1) = Inr (v, rest)"
        by simp
      from "2.IH"(2) [OF s arr(1) arr(2) arr(3) sk False r] l s show ?thesis by simp
    qed
  next
    case other
    with "2.prems" s show ?thesis
      by (auto split: if_splits option.splits
            dest!: match_number_shorter take_literal_length)
  qed
next
  case (3 pf vs s)
  then show ?case by simp
next
  case (4 pf fuel vs s)
  from "4.prems" obtain x s1 where x: "scan_once pf fuel s = Inr (x, s1)"
    by (auto split: sum.splits)
  from "4.IH"(1) [OF x] have l1: "length s1 < length s" .
  from "4.prems" x obtain nextchar s2 where sk: "skip_ws s1 = nextchar # s2"
    by (auto split: list.splits)
  from skip_ws_Cons_length [OF sk] have l2: "length s2 < length s1" .
  show ?case
  proof (cases "nextchar = CHR '']''")
    case True
    with "4.prems" x sk l1 l2 show ?thesis by simp
  next
    case False
    with "4.prems" x sk have c: "nextchar = CHR '',''" and
      r: "JSONArray pf fuel (vs @ [x]) (skip_ws s2) = Inr (v, rest)"
      by (auto split: if_splits)
    from "4.IH"(2) [OF x refl sk False c r] have "length rest < length (skip_ws s2)" .
    with length_skip_ws [of s2] l1 l2 show ?thesis by simp
  qed
next
  case (5 pf ps s)
  then show ?case by simp
next
  case (6 pf fuel ps s)
  from "6.prems" obtain key s1 where k: "scanstring s = Inr (key, s1)"
    by (auto split: sum.splits)
  from scanstring_shorter [OF k] have l1: "length s1 < length s" .
  from "6.prems" k obtain colon s2 where sk1: "skip_ws s1 = colon # s2"
    by (auto split: list.splits)
  from skip_ws_Cons_length [OF sk1] have l2: "length s2 < length s1" .
  from "6.prems" k sk1 have col: "\<not> colon \<noteq> CHR '':''"
    by (auto split: if_splits)
  from "6.prems" k sk1 col obtain x s3 where x: "scan_once pf fuel (skip_ws s2) = Inr (x, s3)"
    by (auto split: sum.splits)
  from "6.IH"(1) [OF k refl sk1 col x] have "length s3 < length (skip_ws s2)" .
  with length_skip_ws [of s2] have l3: "length s3 < length s2" by simp
  from "6.prems" k sk1 col x obtain nextchar s4 where sk2: "skip_ws s3 = nextchar # s4"
    by (auto split: list.splits)
  from skip_ws_Cons_length [OF sk2] have l4: "length s4 < length s3" .
  show ?case
  proof (cases "nextchar = CHR ''}''")
    case True
    with "6.prems" k sk1 col x sk2 l1 l2 l3 l4 show ?thesis by simp
  next
    case False
    with "6.prems" k sk1 col x sk2 have c: "nextchar = CHR '',''"
      by (auto split: if_splits)
    from "6.prems" k sk1 col x sk2 False c obtain q s5 where sk3: "skip_ws s4 = q # s5"
      by (auto split: list.splits)
    from skip_ws_Cons_length [OF sk3] have l5: "length s5 < length s4" .
    from "6.prems" k sk1 col x sk2 False c sk3 have qq: "q = CHR 0x22" and
      r: "JSONObject pf fuel (ps @ [(key, x)]) s5 = Inr (v, rest)"
      by (auto split: if_splits)
    from "6.IH"(2) [OF k refl sk1 col x refl sk2 False c sk3 qq r]
    have "length rest < length s5" .
    with l1 l2 l3 l4 l5 show ?thesis by simp
  qed
qed


lemma scanstring_no_recursion: "scanstring t \<noteq> Inl RecursionError"
proof (induction t rule: scanstring.induct)
  case 1
  show ?case by simp
next
  case (2 c cs)
  show ?case
  proof (cases "c = CHR 0x22")
    case True
    then show ?thesis by simp
  next
    case nq: False
    show ?thesis
    proof (cases "c = CHR 0x5C")
      case True
      note bs = True
      show ?thesis
      proof (cases cs)
        case Nil
        with nq bs show ?thesis by simp
      next
        case (Cons esc cs1)
        show ?thesis
        proof (cases "esc = CHR ''u''")
          case True
          note u = True
          show ?thesis
          proof (cases "\<exists>h1 h2 h3 h4 cs2 n. cs1 = h1 # h2 # h3 # h4 # cs2 \<and>
                          decode_uXXXX h1 h2 h3 h4 = Some n \<and> n < 256")
            case True
            then obtain h1 h2 h3 h4 cs2 n where
              cs1: "cs1 = h1 # h2 # h3 # h4 # cs2" and
              d: "decode_uXXXX h1 h2 h3 h4 = Some n" "n < 256"
              by blast
            from "2.IH"(1) [OF nq bs Cons u cs1 refl refl refl d]
            have "scanstring cs2 \<noteq> Inl RecursionError" .
            with nq bs Cons u cs1 d show ?thesis
              by (auto split: sum.splits prod.splits)
          next
            case False
            with nq bs Cons u show ?thesis
              by (auto split: list.splits option.splits)
          qed
        next
          case False
          show ?thesis
          proof (cases "backslash esc")
            case None
            with nq bs Cons False show ?thesis by simp
          next
            case (Some ch)
            from "2.IH"(2) [OF nq bs Cons False Some]
            have "scanstring cs1 \<noteq> Inl RecursionError" .
            with nq bs Cons False Some show ?thesis
              by (auto split: sum.splits prod.splits)
          qed
        qed
      qed
    next
      case False
      show ?thesis
      proof (cases "(of_char c :: nat) < 0x20")
        case True
        with nq False show ?thesis by simp
      next
        case nc: False
        from "2.IH"(3) [OF nq False nc] have "scanstring cs \<noteq> Inl RecursionError" .
        with nq False nc show ?thesis
          by (auto split: sum.splits prod.splits)
      qed
    qed
  qed
qed

lemma scan_enough_fuel:
  shows "2 * length s + 1 \<le> fuel \<Longrightarrow> scan_once pf fuel s \<noteq> Inl RecursionError"
    and "2 * length s + 2 \<le> fuel \<Longrightarrow> JSONArray pf fuel vs s \<noteq> Inl RecursionError"
    and "2 * length s + 1 \<le> fuel \<Longrightarrow> JSONObject pf fuel ps s \<noteq> Inl RecursionError"
proof (induction pf fuel s and pf fuel vs s and pf fuel ps s
       rule: scan_once_JSONArray_JSONObject.induct)
  case (1 pf s)
  then show ?case by simp
next
  case (2 pf fuel s)
  show ?case
  proof (cases s)
    case Nil
    then show ?thesis by simp
  next
    case (Cons nextchar cs)
    note s = Cons
    consider (str) "nextchar = CHR 0x22"
      | (obj) "nextchar \<noteq> CHR 0x22" "nextchar = CHR ''{''"
      | (arr) "nextchar \<noteq> CHR 0x22" "nextchar \<noteq> CHR ''{''" "nextchar = CHR ''[''"
      | (other) "nextchar \<noteq> CHR 0x22" "nextchar \<noteq> CHR ''{''" "nextchar \<noteq> CHR ''[''"
      by blast
    then show ?thesis
    proof cases
      case str
      with s scanstring_no_recursion [of cs] show ?thesis by (auto split: sum.splits)
    next
      case obj
      show ?thesis
      proof (cases "skip_ws cs")
        case Nil
        with s obj show ?thesis by simp
      next
        case (Cons c cs1)
        note sk = Cons
        from skip_ws_Cons_length [OF sk] have l: "length cs1 < length cs" .
        show ?thesis
        proof (cases "c \<noteq> CHR ''}'' \<and> c = CHR 0x22")
          case True
          then have nc: "c \<noteq> CHR ''}''" and q: "c = CHR 0x22" by simp_all
          from "2.prems" s l have "2 * length cs1 + 1 \<le> fuel" by simp
          from "2.IH"(1) [OF s obj(1) obj(2) sk nc q this]
          have "JSONObject pf fuel [] cs1 \<noteq> Inl RecursionError" .
          with s obj sk nc q show ?thesis by simp
        next
          case False
          with s obj sk show ?thesis by auto
        qed
      qed
    next
      case arr
      show ?thesis
      proof (cases "skip_ws cs")
        case Nil
        with s arr show ?thesis by simp
      next
        case (Cons c cs1)
        note sk = Cons
        from length_skip_ws [of cs] sk have l: "Suc (length cs1) \<le> length cs" by simp
        show ?thesis
        proof (cases "c = CHR '']''")
          case True
          with s arr sk show ?thesis by simp
        next
          case False
          from "2.prems" s l have "2 * length (c # cs1) + 2 \<le> fuel" by simp
          from "2.IH"(2) [OF s arr(1) arr(2) arr(3) sk False this]
          have "JSONArray pf fuel [] (c # cs1) \<noteq> Inl RecursionError" .
          with s arr sk False show ?thesis by simp
        qed
      qed
    next
      case other
      with s show ?thesis
        by (auto split: option.splits)
    qed
  qed
next
  case (3 pf vs s)
  then show ?case by simp
next
  case (4 pf fuel vs s)
  from "4.prems" have "2 * length s + 1 \<le> fuel" by simp
  from "4.IH"(1) [OF this] have a: "scan_once pf fuel s \<noteq> Inl RecursionError" .
  show ?case
  proof (cases "scan_once pf fuel s")
    case (Inl e)
    with a show ?thesis by auto
  next
    case (Inr r)
    obtain x s1 where r: "r = (x, s1)" by (cases r)
    with Inr have x: "scan_once pf fuel s = Inr (x, s1)" by simp
    from scan_progress(1) [OF x] have l1: "length s1 < length s" .
    show ?thesis
    proof (cases "skip_ws s1")
      case Nil
      with x show ?thesis by simp
    next
      case (Cons nextchar s2)
      note sk = Cons
      from skip_ws_Cons_length [OF sk] have l2: "length s2 < length s1" .
      show ?thesis
      proof (cases "nextchar \<noteq> CHR '']'' \<and> nextchar = CHR '',''")
        case True
        then have nb: "nextchar \<noteq> CHR '']''" and c: "nextchar = CHR '',''" by simp_all
        from "4.prems" l1 l2 length_skip_ws [of s2]
        have "2 * length (skip_ws s2) + 2 \<le> fuel" by simp
        from "4.IH"(2) [OF x refl sk nb c this]
        have "JSONArray pf fuel (vs @ [x]) (skip_ws s2) \<noteq> Inl RecursionError" .
        with x sk nb c show ?thesis by simp
      next
        case False
        with x sk show ?thesis by auto
      qed
    qed
  qed
next
  case (5 pf ps s)
  then show ?case by simp
next
  case (6 pf fuel ps s)
  note no_rec = scanstring_no_recursion
  show ?case
  proof (cases "scanstring s")
    case (Inl e)
    with no_rec [of s] show ?thesis by auto
  next
    case (Inr r)
    obtain key s1 where "r = (key, s1)" by (cases r)
    with Inr have k: "scanstring s = Inr (key, s1)" by simp
    from scanstring_shorter [OF k] have l1: "length s1 < length s" .
    show ?thesis
    proof (cases "skip_ws s1")
      case Nil
      with k show ?thesis by simp
    next
      case (Cons colon s2)
      note sk1 = Cons
      from skip_ws_Cons_length [OF sk1] have l2: "length s2 < length s1" .
      show ?thesis
      proof (cases "colon \<noteq> CHR '':''")
        case True
        with k sk1 show ?thesis by simp
      next
        case False
        note col = False
        from "6.prems" l1 l2 length_skip_ws [of s2]
        have "2 * length (skip_ws s2) + 1 \<le> fuel" by simp
        from "6.IH"(1) [OF k refl sk1 col this]
        have a: "scan_once pf fuel (skip_ws s2) \<noteq> Inl RecursionError" .
        show ?thesis
        proof (cases "scan_once pf fuel (skip_ws s2)")
          case (Inl e)
          with a k sk1 col show ?thesis by auto
        next
          case (Inr r')
          obtain x s3 where "r' = (x, s3)" by (cases r')
          with Inr have x: "scan_once pf fuel (skip_ws s2) = Inr (x, s3)" by simp
          from scan_progress(1) [OF x] length_skip_ws [of s2]
          have l3: "length s3 < length s2" by simp
          show ?thesis
          proof (cases "skip_ws s3")
            case Nil
            with k sk1 col x show ?thesis by simp
          next
            case (Cons nextchar s4)
            note sk2 = Cons
            from skip_ws_Cons_length [OF sk2] have l4: "length s4 < length s3" .
            show ?thesis
            proof (cases "nextchar \<noteq> CHR ''}'' \<and> nextchar = CHR '',''")
              case False
              with k sk1 col x sk2 show ?thesis by auto
            next
              case True
              then have nb: "nextchar \<noteq> CHR ''}''" and c: "nextchar = CHR '',''" by simp_all
              show ?thesis
              proof (cases "skip_ws s4")
                case Nil
                with k sk1 col x sk2 nb c show ?thesis by simp
              next
                case (Cons q s5)
                note sk3 = Cons
                from skip_ws_Cons_length [OF sk3] have l5: "length s5 < length s4" .
                show ?thesis
                proof (cases "q = CHR 0x22")
                  case False
                  with k sk1 col x sk2 nb c sk3 show ?thesis by simp
                next
                  case True
                  from "6.prems" l1 l2 l3 l4 l5 have "2 * length s5 + 1 \<le> fuel" by simp
                  from "6.IH"(2) [OF k refl sk1 col x refl sk2 nb c sk3 True this]
                  have "JSONObject pf fuel (ps @ [(key, x)]) s5 \<noteq> Inl RecursionError" .
                  with k sk1 col x sk2 nb c sk3 True show ?thesis by simp
                qed
              qed
            qed
          qed
        qed
      qed
    qed
  qed
qed

lemma json_loads_fuel_suffices: "json_loads pf s \<noteq> Inl RecursionError"
proof -
  have "2 * length (skip_ws s) + 1 \<le> Suc (Suc (length s + length s))"
    using length_skip_ws [of s] by simp
  from scan_enough_fuel(1) [OF this]
  have "scan_once pf (Suc (Suc (length s + length s))) (skip_ws s) \<noteq> Inl RecursionError" .
  then show ?thesis
    by (auto simp: json_loads_def split: sum.splits prod.splits)
qed

subsection \<open>The Utterance Router\<close>

text \<open>
  Claim C8. For a fixed query, embedding and similarity, raising the threshold from
  \<open>t\<close> to \<open>t'\<close> keeps every no-match a no-match, and any match at the higher threshold
  is the same match at the lower one: a change of threshold can only turn a match
  into a no-match.
\<close>

theorem router_match_antitone_in_threshold:
  assumes "t \<le> t'"
  shows "(utterance_router embedding similarity routes t query = None \<longrightarrow>
          utterance_router embedding similarity routes t' query = None) \<and>
         (\<forall>name. utterance_router embedding similarity routes t' query = Some name \<longrightarrow>
                 utterance_router embedding similarity routes t query = Some name)"
  using assms
  by (auto simp: utterance_router_def Let_def split: option.splits if_splits)

theorem router_match_antitone_in_threshold_witness:
  "(5::nat) \<le> 10 \<and>
   utterance_router (\<lambda>q. q) example_similarity example_routes 5 ''boat'' = None \<and>
   utterance_router (\<lambda>q. q) example_similarity example_routes 10 ''boat'' = None \<and>
   utterance_router (\<lambda>q. q) example_similarity example_routes 5 ''country'' = Some ''countries'' \<and>
   utterance_router (\<lambda>q. q) example_similarity example_routes 10 ''country'' = None"
proof -
  have h: "(5::nat) \<le> 10" by simp
  have "utterance_router (\<lambda>q. q) example_similarity example_routes 5 ''boat'' = None"
    by (simp add: utterance_router_def example_similarity_def example_routes_def)
  with router_match_antitone_in_threshold
         [OF h, of "\<lambda>q. q" example_similarity example_routes "''boat''"]
  have "utterance_router (\<lambda>q. q) example_similarity example_routes 10 ''boat'' = None"
    by blast
  then show ?thesis
    by (simp add: utterance_router_def example_similarity_def example_routes_def)
qed

end
